theory Spec2Isabelle
  imports Complex_Main "HOL-Library.Sublist" "HOL-Library.Multiset"
begin

section \<open>Python values\<close>

text \<open>
  The classifier reads whatever JSON the classification oracle wrote, and Python
  dataclasses do not check the types of their fields. The values that flow through the
  classifier are therefore modelled dynamically: \<open>pyval\<close> holds the results of
  \<^verbatim>\<open>json.loads\<close> (\<^verbatim>\<open>None\<close>, booleans, integers, floats including the
  non-finite ones that \<^verbatim>\<open>json.loads\<close> accepts, strings, lists and dictionaries)
  and instances of the dataclass \<^verbatim>\<open>DisciplineResult\<close>.

  A dictionary is an association list read with \<open>map_of\<close>; \<^verbatim>\<open>json.loads\<close> yields
  dictionaries whose keys are strings. A finite float is represented by the real number
  it denotes: the classifier only compares, copies and orders floats, and these
  operations are exact.

  Every \<^verbatim>\<open>DisciplineResult\<close> that the program constructs gets its \<^verbatim>\<open>name\<close> from
  a string constant or a taxonomy entry and its \<^verbatim>\<open>relevance_score\<close> from a float
  constant, a clamped score or another \<^verbatim>\<open>DisciplineResult\<close>; these two fields are
  typed accordingly. \<^verbatim>\<open>discipline_id\<close> and \<^verbatim>\<open>evidence\<close> are copied from the
  oracle's JSON unchecked.
\<close>

datatype pyval =
    PNone
  | PBool bool
  | PInt int
  | PFloat real
  | PNaN
  | PInf
  | PNegInf
  | PStr string
  | PList "pyval list"
  | PDict "(string \<times> pyval) list"
  | PResult disc_result
and disc_result =
    DisciplineResult (discipline_id: pyval) (name: string) (relevance_score: real) (evidence: pyval)

text \<open>Exceptions that the modelled code lets escape.\<close>

datatype error =
    AttributeError | TypeError | FileNotFoundError | JSONDecodeError
  | UnicodeDecodeError | ValueError | RecursionError

record DisciplineClassification =
  disciplines :: pyval
  confidence_score :: pyval
  classification_reasoning :: pyval
  discipline_classification_id :: pyval

text \<open>
  \<^verbatim>\<open>d.get(key, default)\<close>: only a dictionary has the method \<^verbatim>\<open>get\<close>.
\<close>

fun dict_get :: "pyval \<Rightarrow> string \<Rightarrow> pyval \<Rightarrow> error + pyval" where
  "dict_get (PDict kvs) k dflt = Inr (case map_of kvs k of Some v \<Rightarrow> v | None \<Rightarrow> dflt)"
| "dict_get _ k dflt = Inl AttributeError"

text \<open>
  The items a \<^verbatim>\<open>for\<close> loop visits: the elements of a list, the keys of a dictionary,
  the characters of a string; any other value modelled here is not iterable.
\<close>

fun py_iter :: "pyval \<Rightarrow> error + pyval list" where
  "py_iter (PList xs) = Inr xs"
| "py_iter (PDict kvs) = Inr (map PStr (remdups (map fst kvs)))"
| "py_iter (PStr s) = Inr (map (\<lambda>c. PStr [c]) s)"
| "py_iter _ = Inl TypeError"

text \<open>
  \<^verbatim>\<open>min(1.0, max(0.0, x))\<close>. \<^verbatim>\<open>max(0.0, x)\<close> is \<^verbatim>\<open>x\<close> when \<^verbatim>\<open>x > 0.0\<close> and
  \<^verbatim>\<open>0.0\<close> otherwise; \<^verbatim>\<open>min(1.0, m)\<close> is \<^verbatim>\<open>m\<close> when \<^verbatim>\<open>m < 1.0\<close> and
  \<^verbatim>\<open>1.0\<close> otherwise. Booleans and integers compare with floats by value, every
  comparison with NaN is false, and comparing a float with \<^verbatim>\<open>None\<close>, a string, a list,
  a dictionary or a dataclass instance raises \<^verbatim>\<open>TypeError\<close>. The result is always a
  float.
\<close>

fun clamp01 :: "pyval \<Rightarrow> error + real" where
  "clamp01 (PBool b) = Inr (if b then 1 else 0)"
| "clamp01 (PInt i) = Inr (if real_of_int i > 0 then (if real_of_int i < 1 then real_of_int i else 1) else 0)"
| "clamp01 (PFloat x) = Inr (if x > 0 then (if x < 1 then x else 1) else 0)"
| "clamp01 PNaN = Inr 0"
| "clamp01 PInf = Inr 1"
| "clamp01 PNegInf = Inr 0"
| "clamp01 _ = Inl TypeError"

section \<open>Taxonomy table\<close>

text \<open>
  The dataclass \<^verbatim>\<open>DisciplineDefinition\<close> and the dictionary \<^verbatim>\<open>DISCIPLINES\<close>
  of the 23 disciplines, in its order of insertion.
\<close>

record DisciplineDefinition =
  def_id :: int
  def_name :: string
  def_keywords :: "string list"
  def_description :: string

definition DISCIPLINES :: "(int \<times> DisciplineDefinition) list" where
  "DISCIPLINES =
    [(1, \<lparr>def_id = 1, def_name = ''Computer Science'',
          def_keywords =
            [''AI'', ''ML'', ''machine learning'', ''neural network'',
             ''deep learning'', ''algorithm'', ''software'', ''programming'', ''NLP'',
             ''computer vision'', ''data mining'', ''artificial intelligence'',
             ''computing'', ''database''],
          def_description = ''Artificial intelligence, machine learning, algorithms, software engineering''\<rparr>),
     (2, \<lparr>def_id = 2, def_name = ''Medicine'',
          def_keywords =
            [''clinical'', ''diagnosis'', ''treatment'', ''patient'', ''medical'',
             ''disease'', ''therapy'', ''hospital'', ''physician'', ''healthcare'',
             ''surgical'', ''pharmaceutical'', ''pathology'', ''oncology''],
          def_description = ''Clinical research, diagnostics, therapeutics, patient care''\<rparr>),
     (3, \<lparr>def_id = 3, def_name = ''Chemistry'',
          def_keywords =
            [''compound'', ''reaction'', ''synthesis'', ''molecule'', ''chemical'',
             ''catalyst'', ''polymer'', ''organic'', ''inorganic'', ''spectroscopy'',
             ''electrochemistry'', ''biochemistry'', ''analytical''],
          def_description = ''Chemical compounds, reactions, synthesis, molecular analysis''\<rparr>),
     (4, \<lparr>def_id = 4, def_name = ''Biology'',
          def_keywords =
            [''gene'', ''cell'', ''evolution'', ''bioinformatics'', ''protein'',
             ''DNA'', ''RNA'', ''genome'', ''species'', ''organism'', ''molecular'',
             ''ecology'', ''genetics'', ''microbiology'', ''neuroscience''],
          def_description = ''Genetics, cellular biology, evolution, bioinformatics''\<rparr>),
     (5, \<lparr>def_id = 5, def_name = ''Materials Science'',
          def_keywords =
            [''nanomaterial'', ''crystal'', ''alloy'', ''polymer'', ''semiconductor'',
             ''ceramic'', ''composite'', ''thin film'', ''surface'', ''nanoparticle'',
             ''graphene'', ''superconductor'', ''biomaterial''],
          def_description = ''Nanomaterials, crystals, alloys, material properties''\<rparr>),
     (6, \<lparr>def_id = 6, def_name = ''Physics'',
          def_keywords =
            [''quantum'', ''particle'', ''thermodynamics'', ''mechanics'', ''optics'',
             ''electromagnetic'', ''relativity'', ''condensed matter'', ''nuclear'',
             ''astrophysics'', ''photon'', ''wave'', ''energy''],
          def_description = ''Quantum mechanics, particle physics, thermodynamics''\<rparr>),
     (7, \<lparr>def_id = 7, def_name = ''Geology'',
          def_keywords =
            [''rock'', ''mineral'', ''tectonic'', ''sediment'', ''volcanic'',
             ''earthquake'', ''geochemistry'', ''stratigraphy'', ''paleontology'',
             ''hydrology'', ''geophysics'', ''geological''],
          def_description = ''Rocks, minerals, tectonics, geological processes''\<rparr>),
     (8, \<lparr>def_id = 8, def_name = ''Psychology'',
          def_keywords =
            [''behavior'', ''cognitive'', ''psychological'', ''mental'', ''emotion'',
             ''perception'', ''memory'', ''personality'', ''therapy'', ''disorder'',
             ''consciousness'', ''developmental'', ''social psychology''],
          def_description = ''Behavior, cognition, mental processes, psychological research''\<rparr>),
     (9, \<lparr>def_id = 9, def_name = ''Art'',
          def_keywords =
            [''visual art'', ''music'', ''aesthetic'', ''artistic'', ''painting'',
             ''sculpture'', ''performance'', ''design'', ''creative'', ''museum'',
             ''cultural heritage'', ''art history''],
          def_description = ''Visual arts, music, aesthetics, artistic expression''\<rparr>),
     (10, \<lparr>def_id = 10, def_name = ''History'',
          def_keywords =
            [''historical'', ''era'', ''civilization'', ''ancient'', ''medieval'',
             ''modern history'', ''archaeology'', ''archive'', ''heritage'',
             ''historiography'', ''historical event'', ''dynasty''],
          def_description = ''Historical events, eras, civilizations, historiography''\<rparr>),
     (11, \<lparr>def_id = 11, def_name = ''Geography'',
          def_keywords =
            [''spatial'', ''regional'', ''climate'', ''landscape'', ''urban'', ''GIS'',
             ''cartography'', ''territory'', ''migration'', ''population'',
             ''geospatial'', ''environmental geography''],
          def_description = ''Spatial analysis, regional studies, climate, landscapes''\<rparr>),
     (12, \<lparr>def_id = 12, def_name = ''Sociology'',
          def_keywords =
            [''social'', ''culture'', ''institution'', ''community'', ''inequality'',
             ''class'', ''gender'', ''race'', ''ethnicity'', ''social structure'',
             ''sociological'', ''social change'', ''social behavior''],
          def_description = ''Social structures, culture, institutions, social behavior''\<rparr>),
     (13, \<lparr>def_id = 13, def_name = ''Business'',
          def_keywords =
            [''management'', ''marketing'', ''finance'', ''entrepreneurship'',
             ''strategy'', ''organization'', ''corporate'', ''MBA'', ''leadership'',
             ''innovation'', ''business model'', ''supply chain''],
          def_description = ''Management, marketing, finance, business strategy''\<rparr>),
     (14, \<lparr>def_id = 14, def_name = ''Political Science'',
          def_keywords =
            [''government'', ''policy'', ''political'', ''democracy'', ''election'',
             ''parliament'', ''legislation'', ''diplomacy'',
             ''international relations'', ''political party'', ''voting'',
             ''governance''],
          def_description = ''Government, policy, political systems, international relations''\<rparr>),
     (15, \<lparr>def_id = 15, def_name = ''Economics'',
          def_keywords =
            [''market'', ''equilibrium'', ''financial'', ''monetary'', ''fiscal'',
             ''trade'', ''GDP'', ''inflation'', ''microeconomics'', ''macroeconomics'',
             ''econometric'', ''price'', ''demand'', ''supply''],
          def_description = ''Markets, economic theory, financial systems, trade''\<rparr>),
     (16, \<lparr>def_id = 16, def_name = ''Philosophy'',
          def_keywords =
            [''ethics'', ''logic'', ''metaphysics'', ''epistemology'', ''ontology'',
             ''moral'', ''philosophical'', ''reasoning'', ''existential'',
             ''phenomenology'', ''aesthetics philosophy'', ''mind''],
          def_description = ''Ethics, logic, metaphysics, epistemology, philosophical reasoning''\<rparr>),
     (17, \<lparr>def_id = 17, def_name = ''Mathematics'',
          def_keywords =
            [''theorem'', ''proof'', ''equation'', ''algebra'', ''calculus'',
             ''topology'', ''number theory'', ''statistics'', ''probability'',
             ''differential'', ''integral'', ''mathematical''],
          def_description = ''Theorems, proofs, equations, mathematical analysis''\<rparr>),
     (18, \<lparr>def_id = 18, def_name = ''Engineering'',
          def_keywords =
            [''design'', ''system'', ''optimization'', ''mechanical'', ''electrical'',
             ''civil'', ''structural'', ''control'', ''robotics'', ''manufacturing'',
             ''engineering'', ''prototype'', ''simulation''],
          def_description = ''Engineering design, systems, optimization, technical implementation''\<rparr>),
     (19, \<lparr>def_id = 19, def_name = ''Environmental Science'',
          def_keywords =
            [''ecology'', ''pollution'', ''climate change'', ''sustainability'',
             ''biodiversity'', ''conservation'', ''ecosystem'', ''carbon'',
             ''environmental impact'', ''renewable'', ''green''],
          def_description = ''Ecology, pollution, climate change, sustainability''\<rparr>),
     (20, \<lparr>def_id = 20, def_name = ''Agricultural and Food Sciences'',
          def_keywords =
            [''crop'', ''food technology'', ''agriculture'', ''livestock'', ''soil'',
             ''irrigation'', ''harvest'', ''nutrition'', ''food safety'', ''agronomy'',
             ''horticulture'', ''aquaculture''],
          def_description = ''Crops, food technology, agriculture, nutrition''\<rparr>),
     (21, \<lparr>def_id = 21, def_name = ''Education'',
          def_keywords =
            [''pedagogy'', ''curriculum'', ''learning'', ''teaching'', ''student'',
             ''classroom'', ''educational'', ''assessment'', ''literacy'',
             ''higher education'', ''school'', ''instruction''],
          def_description = ''Pedagogy, curriculum, learning, teaching methods''\<rparr>),
     (22, \<lparr>def_id = 22, def_name = ''Law'',
          def_keywords =
            [''legal'', ''regulation'', ''case'', ''court'', ''statute'', ''contract'',
             ''liability'', ''criminal'', ''constitutional'', ''jurisdiction'',
             ''litigation'', ''judicial''],
          def_description = ''Legal systems, regulations, case law, jurisprudence''\<rparr>),
     (23, \<lparr>def_id = 23, def_name = ''Linguistics'',
          def_keywords =
            [''language'', ''syntax'', ''semantics'', ''phonology'', ''morphology'',
             ''discourse'', ''linguistic'', ''grammar'', ''translation'',
             ''sociolinguistics'', ''pragmatics'', ''corpus''],
          def_description = ''Language, syntax, semantics, linguistic analysis''\<rparr>)]"

text \<open>
  \<^verbatim>\<open>DISCIPLINES.get(discipline_id)\<close>. The keys are the integers 1 to 23. A dictionary
  lookup hashes its argument: lists, dictionaries and instances of a dataclass with
  \<^verbatim>\<open>eq\<close> and without \<^verbatim>\<open>frozen\<close> are unhashable. \<^verbatim>\<open>True\<close> equals 1 and
  \<^verbatim>\<open>False\<close> equals 0, and a float equals the integer of the same value.
\<close>

fun get_discipline_by_id :: "pyval \<Rightarrow> error + DisciplineDefinition option" where
  "get_discipline_by_id (PInt i) = Inr (map_of DISCIPLINES i)"
| "get_discipline_by_id (PBool b) = Inr (map_of DISCIPLINES (if b then 1 else 0))"
| "get_discipline_by_id (PFloat x) =
     Inr (if x = real_of_int \<lfloor>x\<rfloor> then map_of DISCIPLINES \<lfloor>x\<rfloor> else None)"
| "get_discipline_by_id (PList xs) = Inl TypeError"
| "get_discipline_by_id (PDict kvs) = Inl TypeError"
| "get_discipline_by_id (PResult d) = Inl TypeError"
| "get_discipline_by_id _ = Inr None"

text \<open>
  The values that a dictionary lookup can hash: every value modelled here but lists,
  dictionaries and \<^verbatim>\<open>DisciplineResult\<close> instances. Among the values of
  \<^verbatim>\<open>json.loads\<close> these are the scalars: numbers, booleans, strings and \<^verbatim>\<open>None\<close>.
\<close>

fun hashable :: "pyval \<Rightarrow> bool" where
  "hashable (PList xs) = False"
| "hashable (PDict kvs) = False"
| "hashable (PResult d) = False"
| "hashable _ = True"

section \<open>Discipline classifier\<close>

text \<open>
  What \<^verbatim>\<open>json.loads(output_file.read_text(encoding="utf-8"))\<close> meets at the output
  path:
  \<^item> \<open>Absent\<close>: there is no file;
  \<^item> \<open>Undecodable\<close>: the bytes of the file are not UTF-8, and \<^verbatim>\<open>read_text\<close> raises
    \<^verbatim>\<open>UnicodeDecodeError\<close>;
  \<^item> \<open>Malformed\<close>: the text is not JSON, and \<^verbatim>\<open>json.loads\<close> raises
    \<^verbatim>\<open>JSONDecodeError\<close>;
  \<^item> \<open>DigitLimit\<close>: the text is JSON with an integer literal longer than the
    interpreter's limit for the conversion of integers, and \<^verbatim>\<open>json.loads\<close> raises
    \<^verbatim>\<open>ValueError\<close>;
  \<^item> \<open>TooDeep\<close>: the text is JSON nested deeper than the interpreter's recursion limit,
    and \<^verbatim>\<open>json.loads\<close> raises \<^verbatim>\<open>RecursionError\<close>;
  \<^item> \<open>Parsed v\<close>: the text is JSON and \<^verbatim>\<open>json.loads\<close> returns \<open>v\<close>.

  \<^verbatim>\<open>UnicodeDecodeError\<close> and \<^verbatim>\<open>JSONDecodeError\<close> are both subclasses of
  \<^verbatim>\<open>ValueError\<close>, and neither is a subclass of the other.
\<close>

datatype artifact = Absent | Undecodable | Malformed | DigitLimit | TooDeep | Parsed pyval

definition fallback_classification :: DisciplineClassification where
  "fallback_classification =
     \<lparr>disciplines = PList [PResult (DisciplineResult (PInt 1) ''Computer Science'' 0.5
         (PStr ''Fallback due to classification failure''))],
      confidence_score = PFloat 0.3,
      classification_reasoning = PStr ''Fallback classification due to processing error'',
      discipline_classification_id = PStr ''''\<rparr>"

text \<open>
  The body of the loop over the oracle's entries: the result to append, if any. The
  score is clamped only after the id has resolved.
\<close>

definition parse_entry :: "pyval \<Rightarrow> error + disc_result option" where
  "parse_entry disc_data =
     (case dict_get disc_data ''id'' (PInt 0) of Inl e \<Rightarrow> Inl e | Inr disc_id \<Rightarrow>
      case dict_get disc_data ''name'' (PStr '''') of Inl e \<Rightarrow> Inl e | Inr disc_name \<Rightarrow>
      case dict_get disc_data ''score'' (PFloat 0) of Inl e \<Rightarrow> Inl e | Inr score \<Rightarrow>
      case dict_get disc_data ''evidence'' (PStr '''') of Inl e \<Rightarrow> Inl e | Inr evid \<Rightarrow>
      case get_discipline_by_id disc_id of Inl e \<Rightarrow> Inl e
      | Inr None \<Rightarrow> Inr None
      | Inr (Some disc_def) \<Rightarrow>
          (case clamp01 score of Inl e \<Rightarrow> Inl e
           | Inr s \<Rightarrow> Inr (Some (DisciplineResult disc_id (def_name disc_def) s evid))))"

text \<open>
  Both loops of the classifier have the shape
  \<^verbatim>\<open>for x in items: ... if ...: acc.append(...)\<close>: the body yields the value to
  append, if any, and an exception raised by the body ends the loop.
\<close>

fun collect_loop :: "('a \<Rightarrow> error + 'b option) \<Rightarrow> 'a list \<Rightarrow> 'b list \<Rightarrow> error + 'b list" where
  "collect_loop body [] acc = Inr acc"
| "collect_loop body (x # rest) acc =
     (case body x of
        Inl e \<Rightarrow> Inl e
      | Inr None \<Rightarrow> collect_loop body rest acc
      | Inr (Some d) \<Rightarrow> collect_loop body rest (acc @ [d]))"

text \<open>
  \<^verbatim>\<open>sorted(disciplines, key=lambda d: d.relevance_score, reverse=True)\<close>: Python's
  sort is stable, also with \<^verbatim>\<open>reverse=True\<close>; the keys here are finite floats.
\<close>

definition sorted_by_relevance_desc :: "disc_result list \<Rightarrow> disc_result list" where
  "sorted_by_relevance_desc ds = sort_key (\<lambda>d. - relevance_score d) ds"

definition default_result :: disc_result where
  "default_result = DisciplineResult (PInt 1) ''Computer Science'' 0.5 (PStr ''Default classification'')"

text \<open>The items visited by \<^verbatim>\<open>for disc_data in data.get("disciplines", [])\<close>.\<close>

definition oracle_entries :: "pyval \<Rightarrow> error + pyval list" where
  "oracle_entries data =
     (case dict_get data ''disciplines'' (PList []) of
        Inl e \<Rightarrow> Inl e
      | Inr entries \<Rightarrow> py_iter entries)"

definition parse_classification_result :: "artifact \<Rightarrow> error + DisciplineClassification" where
  "parse_classification_result output_file =
     (case output_file of
        Absent \<Rightarrow> Inr fallback_classification
      | Undecodable \<Rightarrow> Inl UnicodeDecodeError
      | Malformed \<Rightarrow> Inr fallback_classification
      | DigitLimit \<Rightarrow> Inl ValueError
      | TooDeep \<Rightarrow> Inl RecursionError
      | Parsed data \<Rightarrow>
         (case oracle_entries data of Inl e \<Rightarrow> Inl e | Inr items \<Rightarrow>
          case collect_loop parse_entry items [] of Inl e \<Rightarrow> Inl e | Inr parsed \<Rightarrow>
          let disciplines1 = (if parsed = [] then [default_result] else parsed);
              disciplines2 = take 3 (sorted_by_relevance_desc disciplines1)
          in
          case dict_get data ''confidence'' (PFloat 0.7) of Inl e \<Rightarrow> Inl e | Inr conf \<Rightarrow>
          case clamp01 conf of Inl e \<Rightarrow> Inl e | Inr c \<Rightarrow>
          case dict_get data ''reasoning'' (PStr '''') of Inl e \<Rightarrow> Inl e | Inr reasoning \<Rightarrow>
          Inr \<lparr>disciplines = PList (map PResult disciplines2),
               confidence_score = PFloat c,
               classification_reasoning = reasoning,
               discipline_classification_id = PStr ''''\<rparr>))"

text \<open>
  The body of the loop of \<^verbatim>\<open>_validate_disciplines\<close>. Reading
  \<^verbatim>\<open>disc.discipline_id\<close> from anything but a \<^verbatim>\<open>DisciplineResult\<close> raises
  \<^verbatim>\<open>AttributeError\<close>.
\<close>

fun validate_entry :: "pyval \<Rightarrow> error + disc_result option" where
  "validate_entry (PResult disc) =
     (case get_discipline_by_id (discipline_id disc) of
        Inl e \<Rightarrow> Inl e
      | Inr None \<Rightarrow> Inr None
      | Inr (Some disc_def) \<Rightarrow>
          Inr (Some (DisciplineResult (discipline_id disc) (def_name disc_def)
                       (relevance_score disc) (evidence disc))))"
| "validate_entry _ = Inl AttributeError"

definition fallback_result :: disc_result where
  "fallback_result = DisciplineResult (PInt 1) ''Computer Science'' 0.5 (PStr ''Fallback classification'')"

definition validate_disciplines :: "DisciplineClassification \<Rightarrow> error + DisciplineClassification" where
  "validate_disciplines classification =
     (case py_iter (disciplines classification) of Inl e \<Rightarrow> Inl e | Inr items \<Rightarrow>
      case collect_loop validate_entry items [] of Inl e \<Rightarrow> Inl e | Inr validated \<Rightarrow>
      Inr \<lparr>disciplines = PList (map PResult (if validated = [] then [fallback_result] else validated)),
           confidence_score = confidence_score classification,
           classification_reasoning = classification_reasoning classification,
           discipline_classification_id = discipline_classification_id classification\<rparr>)"

text \<open>
  The part of \<^verbatim>\<open>classify_paper\<close> between the oracle call and the assignment of the
  classification id: parse the output file, then validate.
\<close>

definition classify_paper :: "artifact \<Rightarrow> error + DisciplineClassification" where
  "classify_paper output_file =
     (case parse_classification_result output_file of
        Inl e \<Rightarrow> Inl e
      | Inr classification \<Rightarrow> validate_disciplines classification)"

subsection \<open>Storage payload\<close>

fun result_to_dict :: "pyval \<Rightarrow> error + pyval" where
  "result_to_dict (PResult d) =
     Inr (PDict [(''discipline_id'', discipline_id d),
                 (''name'', PStr (name d)),
                 (''relevance_score'', PFloat (relevance_score d)),
                 (''evidence'', evidence d)])"
| "result_to_dict _ = Inl AttributeError"

fun map_err :: "('a \<Rightarrow> error + 'b) \<Rightarrow> 'a list \<Rightarrow> error + 'b list" where
  "map_err f [] = Inr []"
| "map_err f (x # xs) =
     (case f x of Inl e \<Rightarrow> Inl e | Inr y \<Rightarrow>
      case map_err f xs of Inl e \<Rightarrow> Inl e | Inr ys \<Rightarrow> Inr (y # ys))"

definition classification_to_dict :: "DisciplineClassification \<Rightarrow> error + pyval" where
  "classification_to_dict classification =
     (case py_iter (disciplines classification) of Inl e \<Rightarrow> Inl e | Inr items \<Rightarrow>
      case map_err result_to_dict items of Inl e \<Rightarrow> Inl e | Inr dicts \<Rightarrow>
      Inr (PDict [(''disciplines'', PList dicts),
                  (''confidence_score'', confidence_score classification),
                  (''classification_reasoning'', classification_reasoning classification),
                  (''discipline_classification_id'', discipline_classification_id classification)]))"

text \<open>
  \<^verbatim>\<open>DisciplineClassification(**data)\<close>: the generated constructor of a dataclass
  takes exactly the declared fields as keywords, all of them required, and stores each
  argument as it is.
\<close>

definition classification_fields :: "string list" where
  "classification_fields =
     [''disciplines'', ''confidence_score'', ''classification_reasoning'',
      ''discipline_classification_id'']"

fun new_DisciplineClassification :: "pyval \<Rightarrow> error + DisciplineClassification" where
  "new_DisciplineClassification (PDict kvs) =
     (if list_all (\<lambda>k. k \<in> set classification_fields) (map fst kvs) then
        (case (map_of kvs ''disciplines'', map_of kvs ''confidence_score'',
               map_of kvs ''classification_reasoning'',
               map_of kvs ''discipline_classification_id'') of
           (Some d, Some c, Some r, Some i) \<Rightarrow>
             Inr \<lparr>disciplines = d, confidence_score = c, classification_reasoning = r,
                  discipline_classification_id = i\<rparr>
         | _ \<Rightarrow> Inl TypeError)
      else Inl TypeError)"
| "new_DisciplineClassification _ = Inl TypeError"

definition load_classifier_output :: "artifact \<Rightarrow> error + DisciplineClassification" where
  "load_classifier_output output_file =
     (case output_file of
        Absent \<Rightarrow> Inl FileNotFoundError
      | Undecodable \<Rightarrow> Inl UnicodeDecodeError
      | Malformed \<Rightarrow> Inl JSONDecodeError
      | DigitLimit \<Rightarrow> Inl ValueError
      | TooDeep \<Rightarrow> Inl RecursionError
      | Parsed data \<Rightarrow> new_DisciplineClassification data)"

section \<open>Expert role derivation\<close>

record ExpertRole =
  role_id :: int
  role_name :: string
  focus :: string
  model :: string
  is_dynamic :: bool

definition DISCIPLINE_TO_EXPERT_MAPPING :: "(string \<times> string list) list" where
  "DISCIPLINE_TO_EXPERT_MAPPING =
    [(''Computer Science'',
        [''Algorithm & Complexity Expert'',
         ''Experimental Design Expert'',
         ''Systems & Implementation Expert'',
         ''Related Work & Novelty Expert'',
         ''Clarity & Presentation Expert'']),
     (''Mathematics'', [''Statistical Methodologist'', ''Formal Methods Expert'']),
     (''Physics'', [''Theoretical Physicist'', ''Experimental Methodologist'']),
     (''Engineering'', [''Systems Engineering Expert'', ''Technical Reviewer'']),
     (''Chemistry'', [''Analytical Chemistry Expert'', ''Experimental Methodologist'']),
     (''Biology'', [''Molecular Biology Expert'', ''Bioinformatics Specialist'']),
     (''Materials Science'', [''Materials Characterization Expert'', ''Experimental Methodologist'']),
     (''Medicine'', [''Clinical Research Expert'', ''Biostatistician'']),
     (''Environmental Science'', [''Environmental Impact Assessor'', ''Ecological Methodologist'']),
     (''Agricultural and Food Sciences'', [''Agricultural Research Expert'', ''Food Safety Specialist'']),
     (''Economics'', [''Empirical Economics Scholar'', ''Causal Inference Expert'']),
     (''Business'', [''Management Research Expert'', ''Quantitative Finance Specialist'']),
     (''Psychology'', [''Experimental Psychology Expert'', ''Statistical Methodologist'']),
     (''Sociology'', [''Qualitative Research Expert'', ''Social Statistics Specialist'']),
     (''Political Science'', [''Policy Analysis Expert'', ''Comparative Politics Scholar'']),
     (''Education'', [''Educational Research Methodologist'', ''Assessment Specialist'']),
     (''Philosophy'', [''Philosophical Argumentation Expert'', ''Logic Specialist'']),
     (''History'', [''Historical Research Methodologist'', ''Archival Expert'']),
     (''Art'', [''Art Criticism Expert'', ''Aesthetic Theory Specialist'']),
     (''Linguistics'', [''Linguistic Analysis Expert'', ''Corpus Linguistics Specialist'']),
     (''Law'', [''Legal Research Expert'', ''Case Analysis Specialist'']),
     (''Geography'', [''Spatial Analysis Expert'', ''GIS Methodologist'']),
     (''Geology'', [''Geological Analysis Expert'', ''Field Methods Specialist''])]"

definition DEFAULT_EXPERT_CONFIGS :: "(int \<times> ExpertRole) list" where
  "DEFAULT_EXPERT_CONFIGS =
    [(1, \<lparr>role_id = 1, role_name = ''Methodology Expert'',
          focus = ''Research methodology, experimental design, validity of approach'',
          model = ''sonnet'', is_dynamic = True\<rparr>),
     (2, \<lparr>role_id = 2, role_name = ''Technical Expert'',
          focus = ''Technical soundness, implementation details, reproducibility'',
          model = ''sonnet'', is_dynamic = True\<rparr>),
     (3, \<lparr>role_id = 3, role_name = ''Domain Expert'',
          focus = ''Domain knowledge, literature integration, theoretical foundation'',
          model = ''sonnet'', is_dynamic = True\<rparr>),
     (4, \<lparr>role_id = 4, role_name = ''Related Work Expert'',
          focus = ''Literature coverage, novelty assessment, positioning'',
          model = ''haiku'', is_dynamic = True\<rparr>),
     (5, \<lparr>role_id = 5, role_name = ''Presentation Expert'',
          focus = ''Clarity, logical coherence, writing quality'',
          model = ''haiku'', is_dynamic = True\<rparr>)]"

definition DISCIPLINE_EXPERT_FOCUS :: "(string \<times> (string \<times> string) list) list" where
  "DISCIPLINE_EXPERT_FOCUS =
    [(''Computer Science'',
        [(''Algorithm & Complexity Expert'',
            ''Algorithm correctness, computational complexity, theoretical analysis, proof validity''),
         (''Experimental Design Expert'',
            ''Benchmark selection, baseline fairness, ablation studies, hyperparameter sensitivity, statistical significance''),
         (''Systems & Implementation Expert'',
            ''Code quality, reproducibility, scalability, engineering practices, open-source availability''),
         (''Related Work & Novelty Expert'',
            ''Literature coverage, novelty claims, fair comparison with prior work, contribution clarity''),
         (''Clarity & Presentation Expert'',
            ''Writing quality, figure clarity, notation consistency, logical flow'')]),
     (''Engineering'',
        [(''Systems Engineering Expert'', ''System design, architecture validity, integration aspects''),
         (''Technical Reviewer'',
            ''Implementation feasibility, engineering constraints, practical applicability''),
         (''Domain Expert'', ''Domain-specific requirements, standards compliance''),
         (''Experimental Methodologist'',
            ''Testing methodology, validation procedures, measurement accuracy''),
         (''Integration Specialist'', ''Overall coherence, cross-system compatibility'')])]"

text \<open>
  The slice \<^verbatim>\<open>xs[:n]\<close>: a negative \<^verbatim>\<open>n\<close> counts from the end of the list.
\<close>

definition slice_to :: "int \<Rightarrow> 'a list \<Rightarrow> 'a list" where
  "slice_to n xs = (if 0 \<le> n then take (nat n) xs else take (nat (int (length xs) + n)) xs)"

definition tier_models :: "string list" where
  "tier_models = [''sonnet'', ''sonnet'', ''sonnet'', ''haiku'', ''haiku'']"

text \<open>The focus of a role in the full-replacement branch.\<close>

definition mapped_focus :: "(string \<times> string) list \<Rightarrow> string \<Rightarrow> string \<Rightarrow> string" where
  "mapped_focus focus_mapping expert_name primary =
     (case map_of focus_mapping expert_name of
        Some f \<Rightarrow> f
      | None \<Rightarrow> ''Expert analysis from '' @ expert_name @ '' perspective for '' @ primary)"

definition get_expert_roles_for_disciplines :: "string list \<Rightarrow> int \<Rightarrow> ExpertRole list" where
  "get_expert_roles_for_disciplines discipline_names num_experts =
     (case discipline_names of
        [] \<Rightarrow> slice_to num_experts (map snd DEFAULT_EXPERT_CONFIGS)
      | primary # _ \<Rightarrow>
         (let suggested = (case map_of DISCIPLINE_TO_EXPERT_MAPPING primary of
                             Some roles \<Rightarrow> roles | None \<Rightarrow> []);
              focus_mapping = (case map_of DISCIPLINE_EXPERT_FOCUS primary of
                                 Some m \<Rightarrow> m | None \<Rightarrow> [])
          in
          if 5 \<le> length suggested then
            map (\<lambda>(i, expert_name).
                   \<lparr>role_id = int i + 1,
                    role_name = expert_name,
                    focus = mapped_focus focus_mapping expert_name primary,
                    model = (if i < length tier_models then tier_models ! i else ''haiku''),
                    is_dynamic = True\<rparr>)
                (enumerate 0 (slice_to num_experts suggested))
          else
            (let experts0 = map snd DEFAULT_EXPERT_CONFIGS;
                 experts1 = (if 1 \<le> length suggested then
                               experts0[2 := \<lparr>role_id = 3, role_name = suggested ! 0,
                                               focus = ''Domain expertise in '' @ primary,
                                               model = ''sonnet'', is_dynamic = True\<rparr>]
                             else experts0);
                 experts2 = (if 2 \<le> length suggested then
                               experts1[3 := \<lparr>role_id = 4, role_name = suggested ! 1,
                                               focus = ''Technical expertise related to '' @ primary,
                                               model = ''haiku'', is_dynamic = True\<rparr>]
                             else experts1)
             in slice_to num_experts experts2)))"

section \<open>Section type inference\<close>

text \<open>
  A \<open>string\<close> holds the UTF-8 bytes of a Python string. The keywords are ASCII, and an
  ASCII keyword occurs in a Python string exactly when its bytes occur contiguously in
  the UTF-8 bytes of that string: \<^verbatim>\<open>kw in s\<close> is the test \<open>sublist\<close>.

  \<^verbatim>\<open>str.lower\<close> applies the case mappings of Unicode, which are data of the interpreter
  and not of this program (it maps the Kelvin sign U+212A to the letter k, for one). It is
  not modelled: \<^verbatim>\<open>_infer_section_type\<close> takes it as the parameter \<open>str_lower\<close>, and
  what is proved of it holds for every function in its place.

  On a string of ASCII characters \<^verbatim>\<open>str.lower\<close> replaces the letters A to Z by a to z
  and leaves every other character. \<open>ascii_lower\<close> is that function; it stands for
  \<^verbatim>\<open>str.lower\<close> in the examples, whose section names are ASCII.
\<close>

definition ascii_lower_char :: "char \<Rightarrow> char" where
  "ascii_lower_char c =
     (if 65 \<le> (of_char c :: nat) \<and> (of_char c :: nat) \<le> 90 then char_of (of_char c + 32 :: nat) else c)"

definition ascii_lower :: "string \<Rightarrow> string" where
  "ascii_lower s = map ascii_lower_char s"

definition type_mappings :: "(string \<times> string list) list" where
  "type_mappings =
    [(''introduction'', [''introduction'', ''intro'', ''background'']),
     (''methods'', [''method'', ''methodology'', ''approach'', ''materials and methods'']),
     (''results'', [''result'', ''finding'', ''experiment'']),
     (''discussion'', [''discussion'', ''analysis'']),
     (''conclusion'', [''conclusion'', ''summary'', ''concluding'']),
     (''abstract'', [''abstract'']),
     (''references'', [''reference'', ''bibliography'', ''citation'']),
     (''appendix'', [''appendix'', ''supplementary''])]"

text \<open>The inner loop: does some keyword of the list occur in the name?\<close>

fun scan_keywords :: "string list \<Rightarrow> string \<Rightarrow> bool" where
  "scan_keywords [] name_lower = False"
| "scan_keywords (keyword # rest) name_lower =
     (if sublist keyword name_lower then True else scan_keywords rest name_lower)"

text \<open>The outer loop: the first section type one of whose keywords occurs, if any.\<close>

fun scan_types :: "(string \<times> string list) list \<Rightarrow> string \<Rightarrow> string option" where
  "scan_types [] name_lower = None"
| "scan_types ((section_type, keywords) # rest) name_lower =
     (if scan_keywords keywords name_lower then Some section_type
      else scan_types rest name_lower)"

text \<open>
  \<^verbatim>\<open>default_type or "content"\<close>: the empty string is the falsy value of the declared
  type \<^verbatim>\<open>str\<close>.
\<close>

definition infer_section_type :: "(string \<Rightarrow> string) \<Rightarrow> string \<Rightarrow> string \<Rightarrow> string" where
  "infer_section_type str_lower section_name default_type =
     (case scan_types type_mappings (str_lower section_name) of
        Some section_type \<Rightarrow> section_type
      | None \<Rightarrow> (if default_type = [] then ''content'' else default_type))"

section \<open>Example oracle outputs\<close>

text \<open>One entry of the oracle's \<^verbatim>\<open>disciplines\<close> list, as the prompt asks for it.\<close>

definition oracle_entry :: "pyval \<Rightarrow> string \<Rightarrow> pyval \<Rightarrow> string \<Rightarrow> pyval" where
  "oracle_entry i n s ev = PDict [(''id'', i), (''name'', PStr n), (''score'', s), (''evidence'', PStr ev)]"

definition oracle_unresolved_example :: pyval where
  "oracle_unresolved_example = PDict [(''disciplines'', PList
      [oracle_entry (PInt 99) ''Medicine'' (PFloat 0.8) ''a'',
       oracle_entry (PInt 2) ''Clinical studies'' (PFloat 0.5) ''b'']),
     (''confidence'', PFloat 0.9), (''reasoning'', PStr ''r'')]"

definition oracle_resolved_only_example :: pyval where
  "oracle_resolved_only_example = PDict [(''disciplines'', PList
      [oracle_entry (PInt 2) ''Clinical studies'' (PFloat 0.5) ''b'']),
     (''confidence'', PFloat 0.9), (''reasoning'', PStr ''r'')]"

definition oracle_unhashable_example :: pyval where
  "oracle_unhashable_example = PDict [(''disciplines'', PList
      [oracle_entry (PList [PInt 99]) ''Medicine'' (PFloat 0.8) ''a'',
       oracle_entry (PInt 2) ''Clinical studies'' (PFloat 0.5) ''b'']),
     (''confidence'', PFloat 0.9), (''reasoning'', PStr ''r'')]"

definition oracle_sorting_example :: pyval where
  "oracle_sorting_example = PDict [(''disciplines'', PList
      [oracle_entry (PInt 3) ''Chemistry'' (PFloat 0.4) ''a'',
       oracle_entry (PInt 1) ''Computer Science'' (PFloat 0.9) ''b'',
       oracle_entry (PInt 17) ''Mathematics'' (PFloat 0.6) ''c'']),
     (''confidence'', PFloat 0.9), (''reasoning'', PStr ''r'')]"

definition oracle_out_of_range_example :: pyval where
  "oracle_out_of_range_example = PDict [(''disciplines'', PList
      [oracle_entry (PInt 6) ''Physics'' (PFloat 1.7) ''a'',
       oracle_entry (PInt 4) ''Biology'' (PFloat (- 0.2)) ''b'']),
     (''reasoning'', PStr ''r'')]"

definition oracle_all_invalid_example :: pyval where
  "oracle_all_invalid_example = PDict [(''disciplines'', PList
      [oracle_entry (PInt 0) ''Computer Science'' (PFloat 0.9) ''a'',
       oracle_entry (PInt 24) ''Medicine'' (PStr ''high'') ''b'',
       oracle_entry (PStr ''2'') ''Medicine'' (PFloat 0.8) ''c'',
       oracle_entry PNone ''Physics'' (PFloat 0.7) ''d'']),
     (''confidence'', PFloat 0.9), (''reasoning'', PStr ''r'')]"

section \<open>Auxiliary facts\<close>

lemma collect_loop_Inr:
  "collect_loop body items acc = Inr res \<longleftrightarrow>
     (\<forall>x\<in>set items. \<exists>r. body x = Inr r) \<and>
     res = acc @ concat (map (\<lambda>x. case body x of Inr (Some d) \<Rightarrow> [d] | _ \<Rightarrow> []) items)"
  by (induction items arbitrary: acc) (auto split: sum.splits option.splits)

lemma collect_loop_set:
  assumes "collect_loop body items [] = Inr res" and "d \<in> set res"
  shows "\<exists>x\<in>set items. body x = Inr (Some d)"
  using assms unfolding collect_loop_Inr
  by (auto split: sum.splits option.splits)

lemma clamp01_range: "clamp01 v = Inr r \<Longrightarrow> 0 \<le> r \<and> r \<le> 1"
  by (cases v) (auto split: if_splits)

lemma parse_entry_Some:
  assumes "parse_entry e = Inr (Some d)"
  shows "\<exists>dd sc. get_discipline_by_id (discipline_id d) = Inr (Some dd) \<and> name d = def_name dd \<and>
           dict_get e ''id'' (PInt 0) = Inr (discipline_id d) \<and>
           dict_get e ''score'' (PFloat 0) = Inr sc \<and> clamp01 sc = Inr (relevance_score d) \<and>
           dict_get e ''evidence'' (PStr '''') = Inr (evidence d)"
proof -
  obtain kvs where e: "e = PDict kvs"
    using assms by (cases e) (simp_all add: parse_entry_def)
  define i where "i = (case map_of kvs ''id'' of Some v \<Rightarrow> v | None \<Rightarrow> PInt 0)"
  define sc where "sc = (case map_of kvs ''score'' of Some v \<Rightarrow> v | None \<Rightarrow> PFloat 0)"
  define ev where "ev = (case map_of kvs ''evidence'' of Some v \<Rightarrow> v | None \<Rightarrow> PStr '''')"
  have pe: "parse_entry e =
      (case get_discipline_by_id i of Inl x \<Rightarrow> Inl x | Inr None \<Rightarrow> Inr None
       | Inr (Some dd) \<Rightarrow> (case clamp01 sc of Inl x \<Rightarrow> Inl x
            | Inr s \<Rightarrow> Inr (Some (DisciplineResult i (def_name dd) s ev))))"
    unfolding i_def sc_def ev_def by (simp add: parse_entry_def e)
  from assms obtain dd where dd: "get_discipline_by_id i = Inr (Some dd)"
    unfolding pe by (auto split: sum.splits option.splits)
  from assms dd obtain s where s: "clamp01 sc = Inr s" and d: "d = DisciplineResult i (def_name dd) s ev"
    unfolding pe by (auto split: sum.splits)
  show ?thesis
    using dd s d by (simp add: e i_def sc_def ev_def)
qed

lemma parse_entry_unresolved:
  assumes "dict_get e ''id'' (PInt 0) = Inr i" and "get_discipline_by_id i = Inr None"
  shows "parse_entry e = Inr None"
proof -
  obtain kvs where e: "e = PDict kvs"
    using assms(1) by (cases e) simp_all
  show ?thesis
    using assms by (simp add: parse_entry_def e)
qed

lemma parse_Parsed:
  assumes "parse_classification_result (Parsed data) = Inr c"
  shows "\<exists>items parsed conf r reasoning.
           oracle_entries data = Inr items \<and>
           collect_loop parse_entry items [] = Inr parsed \<and>
           dict_get data ''confidence'' (PFloat 0.7) = Inr conf \<and>
           clamp01 conf = Inr r \<and>
           dict_get data ''reasoning'' (PStr '''') = Inr reasoning \<and>
           c = \<lparr>disciplines = PList (map PResult
                  (take 3 (sorted_by_relevance_desc (if parsed = [] then [default_result] else parsed)))),
                confidence_score = PFloat r,
                classification_reasoning = reasoning,
                discipline_classification_id = PStr ''''\<rparr>"
proof -
  note d = parse_classification_result_def
  obtain items where 1: "oracle_entries data = Inr items"
    using assms by (cases "oracle_entries data") (simp_all add: d)
  obtain parsed where 2: "collect_loop parse_entry items [] = Inr parsed"
    using assms 1 by (cases "collect_loop parse_entry items []") (simp_all add: d)
  obtain conf where 3: "dict_get data ''confidence'' (PFloat 0.7) = Inr conf"
    using assms 1 2 by (cases "dict_get data ''confidence'' (PFloat 0.7)") (simp_all add: d Let_def)
  obtain r where 4: "clamp01 conf = Inr r"
    using assms 1 2 3 by (cases "clamp01 conf") (simp_all add: d Let_def)
  obtain reasoning where 5: "dict_get data ''reasoning'' (PStr '''') = Inr reasoning"
    using assms 1 2 3 4 by (cases "dict_get data ''reasoning'' (PStr '''')") (simp_all add: d Let_def)
  have "c = \<lparr>disciplines = PList (map PResult
                  (take 3 (sorted_by_relevance_desc (if parsed = [] then [default_result] else parsed)))),
                confidence_score = PFloat r,
                classification_reasoning = reasoning,
                discipline_classification_id = PStr ''''\<rparr>"
    using assms 1 2 3 4 5 by (simp add: d Let_def)
  with 1 2 3 4 5 show ?thesis by blast
qed

lemmas parse_eval = parse_classification_result_def oracle_entries_def oracle_entry_def parse_entry_def DISCIPLINES_def sorted_by_relevance_desc_def default_result_def

lemma sorted_by_relevance_desc_sorted:
  "sorted_wrt (\<lambda>a b. relevance_score b \<le> relevance_score a) (sorted_by_relevance_desc ds)"
proof -
  have "sorted (map (\<lambda>d. - relevance_score d) (sorted_by_relevance_desc ds))"
    unfolding sorted_by_relevance_desc_def by (rule sorted_sort_key)
  then show ?thesis
    by (simp add: sorted_map)
qed

lemma sorted_by_relevance_desc_mset:
  "mset (sorted_by_relevance_desc ds) = mset ds"
  by (simp add: sorted_by_relevance_desc_def)

lemma sorted_by_relevance_desc_stable:
  "filter (\<lambda>d. relevance_score d = k) (sorted_by_relevance_desc ds) =
   filter (\<lambda>d. relevance_score d = k) ds"
proof -
  have "filter (\<lambda>d. - relevance_score d = - k) (sort_key (\<lambda>d. - relevance_score d) ds) =
        filter (\<lambda>d. - relevance_score d = - k) ds"
    by (rule sort_key_stable)
  then show ?thesis
    by (simp add: sorted_by_relevance_desc_def)
qed

lemma set_take3_sorted:
  "set (take 3 (sorted_by_relevance_desc ds)) \<subseteq> set ds"
proof -
  have "set (take 3 (sorted_by_relevance_desc ds)) \<subseteq> set (sorted_by_relevance_desc ds)"
    by (rule set_take_subset)
  also have "\<dots> = set ds"
    by (metis sorted_by_relevance_desc_mset set_mset_mset)
  finally show ?thesis .
qed

lemma length_kept_le:
  "length (concat (map (\<lambda>x. case body x of Inr (Some d) \<Rightarrow> [d] | _ \<Rightarrow> []) items)) \<le> length items"
  by (induction items) (auto split: sum.splits option.splits)

lemma validate_disciplines_Inr:
  assumes "validate_disciplines c = Inr c'"
  shows "\<exists>items validated.
           py_iter (disciplines c) = Inr items \<and>
           collect_loop validate_entry items [] = Inr validated \<and>
           c' = \<lparr>disciplines = PList (map PResult (if validated = [] then [fallback_result] else validated)),
                 confidence_score = confidence_score c,
                 classification_reasoning = classification_reasoning c,
                 discipline_classification_id = discipline_classification_id c\<rparr>"
proof -
  note d = validate_disciplines_def
  obtain items where 1: "py_iter (disciplines c) = Inr items"
    using assms by (cases "py_iter (disciplines c)") (simp_all add: d)
  obtain validated where 2: "collect_loop validate_entry items [] = Inr validated"
    using assms 1 by (cases "collect_loop validate_entry items []") (simp_all add: d)
  show ?thesis
    using assms 1 2 by (simp add: d)
qed

lemma validate_disciplines_length:
  assumes "validate_disciplines c = Inr c'" and "disciplines c = PList xs"
  shows "\<exists>ds. disciplines c' = PList (map PResult ds) \<and> 1 \<le> length ds \<and> length ds \<le> max 1 (length xs)"
proof -
  from validate_disciplines_Inr[OF assms(1)] assms(2) obtain validated where
    loop: "collect_loop validate_entry xs [] = Inr validated" and
    c': "disciplines c' = PList (map PResult (if validated = [] then [fallback_result] else validated))"
    by auto
  have "length validated \<le> length xs"
    using loop by (simp add: collect_loop_Inr length_kept_le)
  then show ?thesis
    using c' by (intro exI[of _ "if validated = [] then [fallback_result] else validated"])
      (auto simp: Suc_le_eq)
qed

lemma parsed_entry_origin:
  assumes loop: "collect_loop parse_entry items [] = Inr parsed"
    and d: "d \<in> set (take 3 (sorted_by_relevance_desc (if parsed = [] then [default_result] else parsed)))"
  shows "(d = default_result \<and> (\<forall>e\<in>set items. parse_entry e = Inr None)) \<or>
         (\<exists>e\<in>set items. parse_entry e = Inr (Some d))"
proof (cases "parsed = []")
  case True
  have noerr: "\<forall>x\<in>set items. \<exists>r. parse_entry x = Inr r"
    and kept: "parsed = concat (map (\<lambda>e. case parse_entry e of Inr (Some d) \<Rightarrow> [d] | _ \<Rightarrow> []) items)"
    using loop by (simp_all add: collect_loop_Inr)
  have "d = default_result"
    using True d set_take3_sorted[of "[default_result]"] by auto
  moreover have "parse_entry e = Inr None" if e: "e \<in> set items" for e
  proof -
    from noerr e obtain r where r: "parse_entry e = Inr r" by blast
    have "(case parse_entry e of Inr (Some d) \<Rightarrow> [d] | _ \<Rightarrow> []) = []"
      using True kept e by auto
    with r show ?thesis by (cases r) simp_all
  qed
  ultimately show ?thesis by blast
next
  case False
  then have "d \<in> set parsed"
    using d set_take3_sorted[of parsed] by auto
  from collect_loop_set[OF loop this] show ?thesis by blast
qed

lemma parsed_entry_canonical:
  assumes "collect_loop parse_entry items [] = Inr parsed"
    and "d \<in> set (take 3 (sorted_by_relevance_desc (if parsed = [] then [default_result] else parsed)))"
  shows "\<exists>dd. get_discipline_by_id (discipline_id d) = Inr (Some dd) \<and> name d = def_name dd"
  using parsed_entry_origin[OF assms]
proof
  assume "d = default_result \<and> (\<forall>e\<in>set items. parse_entry e = Inr None)"
  then show ?thesis
    by (simp add: default_result_def DISCIPLINES_def)
next
  assume "\<exists>e\<in>set items. parse_entry e = Inr (Some d)"
  then obtain e where "parse_entry e = Inr (Some d)" by blast
  from parse_entry_Some[OF this] show ?thesis by blast
qed

lemma collect_validate_canonical:
  assumes "\<forall>d\<in>set ds. \<exists>dd. get_discipline_by_id (discipline_id d) = Inr (Some dd) \<and> name d = def_name dd"
  shows "collect_loop validate_entry (map PResult ds) acc = Inr (acc @ ds)"
  using assms
proof (induction ds arbitrary: acc)
  case Nil
  then show ?case by simp
next
  case (Cons d ds)
  from Cons.prems obtain dd where dd: "get_discipline_by_id (discipline_id d) = Inr (Some dd)"
    "name d = def_name dd"
    by auto
  have "validate_entry (PResult d) = Inr (Some d)"
    using dd by (cases d) simp
  then show ?case
    using Cons by simp
qed

lemma take3_sorted_nonempty:
  "ds \<noteq> [] \<Longrightarrow> take 3 (sorted_by_relevance_desc ds) \<noteq> []"
proof -
  assume "ds \<noteq> []"
  then have "length (sorted_by_relevance_desc ds) \<noteq> 0"
    by (simp add: sorted_by_relevance_desc_def)
  then show ?thesis
    by simp
qed

lemma validate_after_parse:
  assumes "parse_classification_result output_file = Inr c"
  shows "validate_disciplines c = Inr c"
proof (cases "\<exists>data. output_file = Parsed data")
  case False
  with assms have "c = fallback_classification"
    by (cases output_file) (simp_all add: parse_classification_result_def)
  then show ?thesis
    by (simp add: validate_disciplines_def fallback_classification_def DISCIPLINES_def)
next
  case True
  then obtain data where Parsed: "output_file = Parsed data" by blast
  from parse_Parsed[OF assms[unfolded Parsed]] obtain items parsed r reasoning where
    loop: "collect_loop parse_entry items [] = Inr parsed" and
    c: "c = \<lparr>disciplines = PList (map PResult
                  (take 3 (sorted_by_relevance_desc (if parsed = [] then [default_result] else parsed)))),
                confidence_score = PFloat r,
                classification_reasoning = reasoning,
                discipline_classification_id = PStr ''''\<rparr>"
    by blast
  define ds where "ds = take 3 (sorted_by_relevance_desc (if parsed = [] then [default_result] else parsed))"
  have ne: "ds \<noteq> []"
    unfolding ds_def by (rule take3_sorted_nonempty) simp
  have "\<forall>d\<in>set ds. \<exists>dd. get_discipline_by_id (discipline_id d) = Inr (Some dd) \<and> name d = def_name dd"
    unfolding ds_def using parsed_entry_canonical[OF loop] by blast
  then have "collect_loop validate_entry (map PResult ds) [] = Inr ds"
    using collect_validate_canonical[of ds "[]"] by simp
  then show ?thesis
    using ne unfolding c ds_def[symmetric] by (simp add: validate_disciplines_def)
qed

lemma classify_paper_eq_parse:
  "classify_paper output_file = parse_classification_result output_file"
proof (cases "parse_classification_result output_file")
  case (Inl e)
  then show ?thesis by (simp add: classify_paper_def)
next
  case (Inr c)
  then show ?thesis by (simp add: classify_paper_def validate_after_parse)
qed

lemma parse_entry_returns_on_schema:
  "\<exists>r. parse_entry (oracle_entry (PInt i) n (PFloat s) ev) = Inr r"
  by (cases "map_of DISCIPLINES i") (simp_all add: parse_entry_def oracle_entry_def)

lemma classify_paper_returns_on_schema:
  assumes "\<forall>e\<in>set es. \<exists>i n s ev. e = oracle_entry (PInt i) n (PFloat s) ev"
  shows "\<exists>c. classify_paper (Parsed (PDict [(''disciplines'', PList es),
            (''confidence'', PFloat cf), (''reasoning'', PStr why)])) = Inr c"
proof -
  have "\<forall>e\<in>set es. \<exists>r. parse_entry e = Inr r"
    using assms parse_entry_returns_on_schema by metis
  then obtain parsed where "collect_loop parse_entry es [] = Inr parsed"
    by (simp add: collect_loop_Inr)
  then show ?thesis
    by (simp add: classify_paper_eq_parse parse_classification_result_def oracle_entries_def Let_def)
qed

lemma collect_loop_drop:
  assumes "body e = Inr None"
  shows "collect_loop body (xs @ e # ys) acc = collect_loop body (xs @ ys) acc"
  using assms by (induction xs arbitrary: acc) (auto split: sum.splits option.splits)

lemma get_discipline_by_id_raises_iff:
  "(get_discipline_by_id k = Inl TypeError) = (\<not> hashable k)"
  by (cases k) simp_all

lemma hashable_unresolved:
  assumes "hashable i" and "\<forall>dd. get_discipline_by_id i \<noteq> Inr (Some dd)"
  shows "get_discipline_by_id i = Inr None"
proof -
  obtain r where r: "get_discipline_by_id i = Inr r"
    using assms(1) by (cases i) simp_all
  with assms(2) show ?thesis
    by (cases r) simp_all
qed

lemma parse_entry_name_irrelevant:
  "parse_entry (PDict ((''name'', n) # kvs)) = parse_entry (PDict kvs)"
  by (simp add: parse_entry_def)

lemma parse_same_survivors:
  assumes "oracle_entries data = Inr items" and "oracle_entries data' = Inr items'"
    and "collect_loop parse_entry items [] = collect_loop parse_entry items' []"
    and "dict_get data' ''confidence'' (PFloat 0.7) = dict_get data ''confidence'' (PFloat 0.7)"
    and "dict_get data' ''reasoning'' (PStr '''') = dict_get data ''reasoning'' (PStr '''')"
  shows "parse_classification_result (Parsed data) = parse_classification_result (Parsed data')"
proof -
  define rest where "rest = (\<lambda>(loop :: error + disc_result list) (cf :: error + pyval)
      (why :: error + pyval).
      case loop of Inl e \<Rightarrow> Inl e | Inr parsed \<Rightarrow>
        let disciplines1 = (if parsed = [] then [default_result] else parsed);
            disciplines2 = take 3 (sorted_by_relevance_desc disciplines1)
        in
        case cf of Inl e \<Rightarrow> Inl e | Inr conf \<Rightarrow>
        case clamp01 conf of Inl e \<Rightarrow> Inl e | Inr c \<Rightarrow>
        case why of Inl e \<Rightarrow> Inl e | Inr reasoning \<Rightarrow>
        Inr \<lparr>disciplines = PList (map PResult disciplines2),
             confidence_score = PFloat c,
             classification_reasoning = reasoning,
             discipline_classification_id = PStr ''''\<rparr>)"
  have "parse_classification_result (Parsed d) =
          rest (collect_loop parse_entry xs []) (dict_get d ''confidence'' (PFloat 0.7))
            (dict_get d ''reasoning'' (PStr ''''))"
    if "oracle_entries d = Inr xs" for d xs
    unfolding rest_def parse_classification_result_def using that by simp
  from this[OF assms(1)] this[OF assms(2)] show ?thesis
    by (simp add: assms(3-5))
qed

lemma map_enumerate_nth:
  "map (\<lambda>(i, x). F i x) (enumerate 0 xs) = map (\<lambda>i. F i (xs ! i)) [0..<length xs]"
  by (rule nth_equalityI) (simp_all add: nth_enumerate_eq)

lemma slice_to_nat: "slice_to (int n) xs = take n xs"
  by (simp add: slice_to_def)

lemma scan_keywords_iff: "scan_keywords kws n \<longleftrightarrow> (\<exists>kw\<in>set kws. sublist kw n)"
  by (induction kws) auto

lemma scan_types_find:
  "scan_types tms n = map_option fst (find (\<lambda>(t, kws). \<exists>kw\<in>set kws. sublist kw n) tms)"
  by (induction tms) (auto simp: scan_keywords_iff)

lemma map_err_result_to_dict:
  "map_err result_to_dict (map PResult ds) =
     Inr (map (\<lambda>d. PDict [(''discipline_id'', discipline_id d),
                            (''name'', PStr (name d)),
                            (''relevance_score'', PFloat (relevance_score d)),
                            (''evidence'', evidence d)]) ds)"
  by (induction ds) simp_all

lemma roundtrip_yields_dicts_not_results:
  "classification_to_dict
      \<lparr>disciplines = PList (map PResult (d # ds)), confidence_score = cs,
       classification_reasoning = cr, discipline_classification_id = ci\<rparr> =
     Inr (PDict
       [(''disciplines'', PList (map (\<lambda>d. PDict [(''discipline_id'', discipline_id d),
                            (''name'', PStr (name d)),
                            (''relevance_score'', PFloat (relevance_score d)),
                            (''evidence'', evidence d)]) (d # ds))),
        (''confidence_score'', cs),
        (''classification_reasoning'', cr),
        (''discipline_classification_id'', ci)])
   \<and> load_classifier_output (Parsed (PDict
       [(''disciplines'', PList (map (\<lambda>d. PDict [(''discipline_id'', discipline_id d),
                            (''name'', PStr (name d)),
                            (''relevance_score'', PFloat (relevance_score d)),
                            (''evidence'', evidence d)]) (d # ds))),
        (''confidence_score'', cs),
        (''classification_reasoning'', cr),
        (''discipline_classification_id'', ci)])) =
     Inr \<lparr>disciplines = PList (map (\<lambda>d. PDict [(''discipline_id'', discipline_id d),
                            (''name'', PStr (name d)),
                            (''relevance_score'', PFloat (relevance_score d)),
                            (''evidence'', evidence d)]) (d # ds)),
          confidence_score = cs,
          classification_reasoning = cr, discipline_classification_id = ci\<rparr>
   \<and> \<lparr>disciplines = PList (map (\<lambda>d. PDict [(''discipline_id'', discipline_id d),
                            (''name'', PStr (name d)),
                            (''relevance_score'', PFloat (relevance_score d)),
                            (''evidence'', evidence d)]) (d # ds)),
          confidence_score = cs,
          classification_reasoning = cr, discipline_classification_id = ci\<rparr>
       \<noteq> \<lparr>disciplines = PList (map PResult (d # ds)), confidence_score = cs,
       classification_reasoning = cr, discipline_classification_id = ci\<rparr>"
proof -
  have 1: "classification_to_dict
      \<lparr>disciplines = PList (map PResult xs), confidence_score = cs,
       classification_reasoning = cr, discipline_classification_id = ci\<rparr> =
     Inr (PDict
       [(''disciplines'', PList (map (\<lambda>d. PDict [(''discipline_id'', discipline_id d),
                            (''name'', PStr (name d)),
                            (''relevance_score'', PFloat (relevance_score d)),
                            (''evidence'', evidence d)]) xs)),
        (''confidence_score'', cs),
        (''classification_reasoning'', cr),
        (''discipline_classification_id'', ci)])" for xs
    by (simp add: classification_to_dict_def map_err_result_to_dict)
  have 2: "load_classifier_output (Parsed (PDict
       [(''disciplines'', X),
        (''confidence_score'', cs),
        (''classification_reasoning'', cr),
        (''discipline_classification_id'', ci)])) =
     Inr \<lparr>disciplines = X,
          confidence_score = cs,
          classification_reasoning = cr, discipline_classification_id = ci\<rparr>" for X
    by (simp add: load_classifier_output_def classification_fields_def)
  show ?thesis
    using 1[of "d # ds"] 2 by simp
qed

section \<open>Bounded, never empty result\<close>

text \<open>
  C1. Every classification that parsing followed by validation returns has between one
  and three disciplines, whatever the oracle wrote: also when the output file is absent
  or malformed, and when every entry of the oracle is invalid. (On JSON of the wrong
  shape the Python code raises, and no classification is returned.)
\<close>

theorem classified_disciplines_between_1_and_3:
  assumes "classify_paper output_file = Inr c"
  shows "\<exists>ds. disciplines c = PList (map PResult ds) \<and> 1 \<le> length ds \<and> length ds \<le> 3"
proof -
  from assms obtain c0 where p: "parse_classification_result output_file = Inr c0"
    and v: "validate_disciplines c0 = Inr c"
    by (cases "parse_classification_result output_file") (simp_all add: classify_paper_def)
  have "\<exists>xs. disciplines c0 = PList xs \<and> length xs \<le> 3"
  proof (cases "\<exists>data. output_file = Parsed data")
    case False
    with p show ?thesis
      by (cases output_file) (auto simp: parse_classification_result_def fallback_classification_def)
  next
    case True
    then obtain data where Parsed: "output_file = Parsed data" by blast
    from parse_Parsed[OF p[unfolded Parsed]] show ?thesis by auto
  qed
  then obtain xs where xs: "disciplines c0 = PList xs" "length xs \<le> 3" by blast
  from validate_disciplines_length[OF v xs(1)] xs(2) show ?thesis
    by (auto simp: max_def split: if_splits)
qed

theorem classified_disciplines_between_1_and_3_witness:
  "(\<exists>c. classify_paper (Parsed oracle_all_invalid_example) = Inr c \<and>
      disciplines c = PList [PResult (DisciplineResult (PInt 1) ''Computer Science'' 0.5
                                        (PStr ''Default classification''))] \<and>
      (\<exists>ds. disciplines c = PList (map PResult ds) \<and> 1 \<le> length ds \<and> length ds \<le> 3)) \<and>
   (\<exists>c. classify_paper Absent = Inr c \<and>
      disciplines c = PList [PResult (DisciplineResult (PInt 1) ''Computer Science'' 0.5
                                        (PStr ''Fallback due to classification failure''))] \<and>
      (\<exists>ds. disciplines c = PList (map PResult ds) \<and> 1 \<le> length ds \<and> length ds \<le> 3))"
proof -
  have h1: "classify_paper (Parsed oracle_all_invalid_example) =
     Inr \<lparr>disciplines = PList [PResult (DisciplineResult (PInt 1) ''Computer Science'' 0.5
                                        (PStr ''Default classification''))],
          confidence_score = PFloat 0.9, classification_reasoning = PStr ''r'',
          discipline_classification_id = PStr ''''\<rparr>"
    by (simp add: classify_paper_def validate_disciplines_def oracle_all_invalid_example_def parse_eval)
  have h2: "classify_paper Absent =
     Inr \<lparr>disciplines = PList [PResult (DisciplineResult (PInt 1) ''Computer Science'' 0.5
                                        (PStr ''Fallback due to classification failure''))],
          confidence_score = PFloat 0.3,
          classification_reasoning = PStr ''Fallback classification due to processing error'',
          discipline_classification_id = PStr ''''\<rparr>"
    by (simp add: classify_paper_def validate_disciplines_def fallback_classification_def parse_eval)
  show ?thesis
    using classified_disciplines_between_1_and_3[OF h1] classified_disciplines_between_1_and_3[OF h2] h1 h2
    by simp
qed

section \<open>Unresolvable ids and canonical names\<close>

text \<open>
  C2, as stated: every entry whose id does not resolve against the taxonomy is dropped
  silently. An entry whose id is the JSON list \<open>[99]\<close> does not resolve, and it is not
  dropped: the lookup of the id raises \<^verbatim>\<open>TypeError\<close> and the parse returns nothing,
  while without that entry the parse returns the entry of id 2.
\<close>

theorem unhashable_id_not_dropped_counterexample:
  "oracle_entries oracle_unhashable_example =
     Inr [oracle_entry (PList [PInt 99]) ''Medicine'' (PFloat 0.8) ''a'',
          oracle_entry (PInt 2) ''Clinical studies'' (PFloat 0.5) ''b'']
   \<and> oracle_entries oracle_resolved_only_example =
     Inr [oracle_entry (PInt 2) ''Clinical studies'' (PFloat 0.5) ''b'']
   \<and> get_discipline_by_id (PList [PInt 99]) = Inl TypeError
   \<and> parse_classification_result (Parsed oracle_unhashable_example) = Inl TypeError
   \<and> parse_classification_result (Parsed oracle_resolved_only_example) =
     Inr \<lparr>disciplines = PList [PResult (DisciplineResult (PInt 2) ''Medicine'' 0.5 (PStr ''b''))],
          confidence_score = PFloat 0.9, classification_reasoning = PStr ''r'',
          discipline_classification_id = PStr ''''\<rparr>"
  by (simp add: oracle_unhashable_example_def oracle_resolved_only_example_def parse_eval)

text \<open>
  C2, amended. The lookup of an id raises exactly when the id is not hashable, that is,
  for an oracle id, when it is a JSON list or object. When the oracle's JSON is parsed, an
  entry whose id is hashable (a number, a boolean, a string or null) and does not resolve
  against the taxonomy is dropped silently: the parse gives what it gives on the same JSON
  without that entry, whatever the entry's name and score are. Every entry of a result
  stems from an oracle entry with that id, or is the default entry substituted when no
  entry survived, and its name is the canonical name of its id in the taxonomy; the name
  the oracle gave to an entry has no influence on what the entry yields. For the ids 99
  and 2 the result holds only id 2, named "Medicine".
\<close>

theorem unresolved_hashable_ids_dropped_names_canonical:
  "((get_discipline_by_id i = Inl TypeError) = (\<not> hashable i))
   \<and> (oracle_entries data = Inr (before @ e # after) \<and>
      dict_get e ''id'' (PInt 0) = Inr i \<and> hashable i \<and>
      (\<forall>dd. get_discipline_by_id i \<noteq> Inr (Some dd)) \<and>
      oracle_entries data' = Inr (before @ after) \<and>
      dict_get data' ''confidence'' (PFloat 0.7) = dict_get data ''confidence'' (PFloat 0.7) \<and>
      dict_get data' ''reasoning'' (PStr '''') = dict_get data ''reasoning'' (PStr '''')
      \<longrightarrow> parse_classification_result (Parsed data) = parse_classification_result (Parsed data'))
   \<and> (parse_classification_result (Parsed data) = Inr c \<longrightarrow>
      (\<exists>items ds.
         oracle_entries data = Inr items \<and>
         disciplines c = PList (map PResult ds) \<and>
         (\<forall>d\<in>set ds.
            (d = default_result \<and> (\<forall>e\<in>set items. parse_entry e = Inr None)) \<or>
            (\<exists>e\<in>set items. parse_entry e = Inr (Some d) \<and>
                  dict_get e ''id'' (PInt 0) = Inr (discipline_id d))) \<and>
         (\<forall>d\<in>set ds. \<exists>dd. get_discipline_by_id (discipline_id d) = Inr (Some dd) \<and>
            name d = def_name dd)))
   \<and> parse_entry (PDict ((''name'', n) # kvs)) = parse_entry (PDict kvs)"
proof -
  have dropped: "parse_classification_result (Parsed data) = parse_classification_result (Parsed data')"
    if entries: "oracle_entries data = Inr (before @ e # after)"
      and i: "dict_get e ''id'' (PInt 0) = Inr i" "hashable i"
         "\<forall>dd. get_discipline_by_id i \<noteq> Inr (Some dd)"
      and entries': "oracle_entries data' = Inr (before @ after)"
      and conf: "dict_get data' ''confidence'' (PFloat 0.7) = dict_get data ''confidence'' (PFloat 0.7)"
      and why: "dict_get data' ''reasoning'' (PStr '''') = dict_get data ''reasoning'' (PStr '''')"
  proof -
    have "get_discipline_by_id i = Inr None"
      using i(2,3) by (rule hashable_unresolved)
    with i(1) have "parse_entry e = Inr None"
      by (rule parse_entry_unresolved)
    then have same: "collect_loop parse_entry (before @ e # after) [] =
               collect_loop parse_entry (before @ after) []"
      by (rule collect_loop_drop)
    show ?thesis
      by (rule parse_same_survivors[OF entries entries' same conf why])
  qed
  have canonical: "\<exists>items ds.
         oracle_entries data = Inr items \<and>
         disciplines c = PList (map PResult ds) \<and>
         (\<forall>d\<in>set ds.
            (d = default_result \<and> (\<forall>e\<in>set items. parse_entry e = Inr None)) \<or>
            (\<exists>e\<in>set items. parse_entry e = Inr (Some d) \<and>
                  dict_get e ''id'' (PInt 0) = Inr (discipline_id d))) \<and>
         (\<forall>d\<in>set ds. \<exists>dd. get_discipline_by_id (discipline_id d) = Inr (Some dd) \<and>
            name d = def_name dd)"
    if returned: "parse_classification_result (Parsed data) = Inr c"
  proof -
    from parse_Parsed[OF returned] obtain items parsed where
      items: "oracle_entries data = Inr items" and
      loop: "collect_loop parse_entry items [] = Inr parsed" and
      c: "disciplines c = PList (map PResult
            (take 3 (sorted_by_relevance_desc (if parsed = [] then [default_result] else parsed))))"
      by auto
    define ds where "ds = take 3 (sorted_by_relevance_desc (if parsed = [] then [default_result] else parsed))"
    have origin: "(d = default_result \<and> (\<forall>e\<in>set items. parse_entry e = Inr None)) \<or>
            (\<exists>e\<in>set items. parse_entry e = Inr (Some d) \<and>
                  dict_get e ''id'' (PInt 0) = Inr (discipline_id d))" if d: "d \<in> set ds" for d
      using parsed_entry_origin[OF loop d[unfolded ds_def]]
    proof
      assume "d = default_result \<and> (\<forall>e\<in>set items. parse_entry e = Inr None)"
      then show ?thesis by blast
    next
      assume "\<exists>e\<in>set items. parse_entry e = Inr (Some d)"
      then obtain e where e: "e \<in> set items" "parse_entry e = Inr (Some d)" by blast
      from parse_entry_Some[OF e(2)] have "dict_get e ''id'' (PInt 0) = Inr (discipline_id d)"
        by blast
      with e show ?thesis by blast
    qed
    have canon: "\<exists>dd. get_discipline_by_id (discipline_id d) = Inr (Some dd) \<and> name d = def_name dd"
      if d: "d \<in> set ds" for d
      using parsed_entry_canonical[OF loop d[unfolded ds_def]] .
    show ?thesis
      using items c origin canon unfolding ds_def[symmetric]
      by (intro exI[of _ items] exI[of _ ds]) blast
  qed
  show ?thesis
    using get_discipline_by_id_raises_iff[of i] dropped canonical parse_entry_name_irrelevant[of n kvs]
    by blast
qed

theorem unresolved_hashable_ids_dropped_names_canonical_witness:
  "oracle_entries oracle_unresolved_example =
     Inr ([] @ oracle_entry (PInt 99) ''Medicine'' (PFloat 0.8) ''a'' #
          [oracle_entry (PInt 2) ''Clinical studies'' (PFloat 0.5) ''b''])
   \<and> dict_get (oracle_entry (PInt 99) ''Medicine'' (PFloat 0.8) ''a'') ''id'' (PInt 0) = Inr (PInt 99)
   \<and> hashable (PInt 99)
   \<and> (\<forall>dd. get_discipline_by_id (PInt 99) \<noteq> Inr (Some dd))
   \<and> oracle_entries oracle_resolved_only_example =
     Inr ([] @ [oracle_entry (PInt 2) ''Clinical studies'' (PFloat 0.5) ''b''])
   \<and> parse_classification_result (Parsed oracle_unresolved_example) =
       parse_classification_result (Parsed oracle_resolved_only_example)
   \<and> parse_classification_result (Parsed oracle_unresolved_example) =
     Inr \<lparr>disciplines = PList [PResult (DisciplineResult (PInt 2) ''Medicine'' 0.5 (PStr ''b''))],
          confidence_score = PFloat 0.9, classification_reasoning = PStr ''r'',
          discipline_classification_id = PStr ''''\<rparr>
   \<and> (\<exists>items ds.
         oracle_entries oracle_unresolved_example = Inr items \<and>
         PList [PResult (DisciplineResult (PInt 2) ''Medicine'' 0.5 (PStr ''b''))] =
           PList (map PResult ds) \<and>
         (\<forall>d\<in>set ds.
            (d = default_result \<and> (\<forall>e\<in>set items. parse_entry e = Inr None)) \<or>
            (\<exists>e\<in>set items. parse_entry e = Inr (Some d) \<and>
                  dict_get e ''id'' (PInt 0) = Inr (discipline_id d))) \<and>
         (\<forall>d\<in>set ds. \<exists>dd. get_discipline_by_id (discipline_id d) = Inr (Some dd) \<and>
            name d = def_name dd))"
proof -
  let ?e99 = "oracle_entry (PInt 99) ''Medicine'' (PFloat 0.8) ''a''"
  let ?e2 = "oracle_entry (PInt 2) ''Clinical studies'' (PFloat 0.5) ''b''"
  let ?r = "\<lparr>disciplines = PList [PResult (DisciplineResult (PInt 2) ''Medicine'' 0.5 (PStr ''b''))],
          confidence_score = PFloat 0.9, classification_reasoning = PStr ''r'',
          discipline_classification_id = PStr ''''\<rparr>"
  have 1: "oracle_entries oracle_unresolved_example = Inr ([] @ ?e99 # [?e2])"
    by (simp add: oracle_unresolved_example_def oracle_entries_def)
  have 2: "dict_get ?e99 ''id'' (PInt 0) = Inr (PInt 99)"
    by (simp add: oracle_entry_def)
  have 3: "hashable (PInt 99)"
    by simp
  have 4: "\<forall>dd. get_discipline_by_id (PInt 99) \<noteq> Inr (Some dd)"
    by (simp add: DISCIPLINES_def)
  have 5: "oracle_entries oracle_resolved_only_example = Inr ([] @ [?e2])"
    by (simp add: oracle_resolved_only_example_def oracle_entries_def)
  have 6: "dict_get oracle_resolved_only_example ''confidence'' (PFloat 0.7) =
           dict_get oracle_unresolved_example ''confidence'' (PFloat 0.7)"
    by (simp add: oracle_resolved_only_example_def oracle_unresolved_example_def)
  have 7: "dict_get oracle_resolved_only_example ''reasoning'' (PStr '''') =
           dict_get oracle_unresolved_example ''reasoning'' (PStr '''')"
    by (simp add: oracle_resolved_only_example_def oracle_unresolved_example_def)
  have h: "parse_classification_result (Parsed oracle_unresolved_example) = Inr ?r"
    by (simp add: oracle_unresolved_example_def parse_eval)
  note inst = unresolved_hashable_ids_dropped_names_canonical
    [of "PInt 99" oracle_unresolved_example "[]" ?e99 "[?e2]" oracle_resolved_only_example ?r]
  from inst 1 2 3 4 5 6 7
  have same: "parse_classification_result (Parsed oracle_unresolved_example) =
       parse_classification_result (Parsed oracle_resolved_only_example)"
    by blast
  from inst h
  have canon: "\<exists>items ds.
         oracle_entries oracle_unresolved_example = Inr items \<and>
         disciplines ?r = PList (map PResult ds) \<and>
         (\<forall>d\<in>set ds.
            (d = default_result \<and> (\<forall>e\<in>set items. parse_entry e = Inr None)) \<or>
            (\<exists>e\<in>set items. parse_entry e = Inr (Some d) \<and>
                  dict_get e ''id'' (PInt 0) = Inr (discipline_id d))) \<and>
         (\<forall>d\<in>set ds. \<exists>dd. get_discipline_by_id (discipline_id d) = Inr (Some dd) \<and>
            name d = def_name dd)"
    by blast
  then have canon': "\<exists>items ds.
         oracle_entries oracle_unresolved_example = Inr items \<and>
         PList [PResult (DisciplineResult (PInt 2) ''Medicine'' 0.5 (PStr ''b''))] =
           PList (map PResult ds) \<and>
         (\<forall>d\<in>set ds.
            (d = default_result \<and> (\<forall>e\<in>set items. parse_entry e = Inr None)) \<or>
            (\<exists>e\<in>set items. parse_entry e = Inr (Some d) \<and>
                  dict_get e ''id'' (PInt 0) = Inr (discipline_id d))) \<and>
         (\<forall>d\<in>set ds. \<exists>dd. get_discipline_by_id (discipline_id d) = Inr (Some dd) \<and>
            name d = def_name dd)"
    by simp
  show ?thesis
    using 1 2 3 4 5 same h canon' by (intro conjI)
qed

section \<open>Ordering and truncation\<close>

text \<open>
  C3. The disciplines returned by parsing are the first three of the surviving entries
  (or of the default entry) sorted by non-increasing relevance score, entries of equal
  score staying in the oracle's order. For the ids 3, 1, 17 with scores 0.4, 0.9, 0.6
  the result is 1, 17, 3.
\<close>

theorem parse_sorted_desc_top3_stable:
  assumes "parse_classification_result (Parsed data) = Inr c"
  shows "\<exists>items kept full.
     oracle_entries data = Inr items \<and>
     kept = concat (map (\<lambda>e. case parse_entry e of Inr (Some d) \<Rightarrow> [d] | _ \<Rightarrow> []) items) \<and>
     mset full = mset (if kept = [] then [default_result] else kept) \<and>
     sorted_wrt (\<lambda>a b. relevance_score b \<le> relevance_score a) full \<and>
     (\<forall>k. filter (\<lambda>d. relevance_score d = k) full =
          filter (\<lambda>d. relevance_score d = k) (if kept = [] then [default_result] else kept)) \<and>
     disciplines c = PList (map PResult (take 3 full)) \<and>
     sorted_wrt (\<lambda>a b. relevance_score b \<le> relevance_score a) (take 3 full) \<and>
     length (take 3 full) \<le> 3"
proof -
  from parse_Parsed[OF assms] obtain items parsed where
    items: "oracle_entries data = Inr items" and
    loop: "collect_loop parse_entry items [] = Inr parsed" and
    c: "disciplines c = PList (map PResult
          (take 3 (sorted_by_relevance_desc (if parsed = [] then [default_result] else parsed))))"
    by auto
  define cands where "cands = (if parsed = [] then [default_result] else parsed)"
  define full where "full = sorted_by_relevance_desc cands"
  have kept: "parsed = concat (map (\<lambda>e. case parse_entry e of Inr (Some d) \<Rightarrow> [d] | _ \<Rightarrow> []) items)"
    using loop by (simp add: collect_loop_Inr)
  have 1: "mset full = mset cands"
    by (simp add: full_def sorted_by_relevance_desc_mset)
  have 2: "sorted_wrt (\<lambda>a b. relevance_score b \<le> relevance_score a) full"
    unfolding full_def by (rule sorted_by_relevance_desc_sorted)
  have 3: "\<forall>k. filter (\<lambda>d. relevance_score d = k) full = filter (\<lambda>d. relevance_score d = k) cands"
    by (simp add: full_def sorted_by_relevance_desc_stable)
  have 4: "sorted_wrt (\<lambda>a b. relevance_score b \<le> relevance_score a) (take 3 full)"
    using 2 by (rule sorted_wrt_take)
  have 5: "disciplines c = PList (map PResult (take 3 full))"
    using c by (simp add: full_def cands_def)
  show ?thesis
    using items kept 1 2 3 4 5 unfolding cands_def
    by (intro exI[of _ items] exI[of _ parsed] exI[of _ full]) simp
qed

theorem parse_sorted_desc_top3_stable_witness:
  "\<exists>c. parse_classification_result (Parsed oracle_sorting_example) = Inr c \<and>
     disciplines c = PList
       [PResult (DisciplineResult (PInt 1) ''Computer Science'' 0.9 (PStr ''b'')),
        PResult (DisciplineResult (PInt 17) ''Mathematics'' 0.6 (PStr ''c'')),
        PResult (DisciplineResult (PInt 3) ''Chemistry'' 0.4 (PStr ''a''))] \<and>
     (\<exists>items kept full.
        oracle_entries oracle_sorting_example = Inr items \<and>
        kept = concat (map (\<lambda>e. case parse_entry e of Inr (Some d) \<Rightarrow> [d] | _ \<Rightarrow> []) items) \<and>
        mset full = mset (if kept = [] then [default_result] else kept) \<and>
        sorted_wrt (\<lambda>a b. relevance_score b \<le> relevance_score a) full \<and>
        (\<forall>k. filter (\<lambda>d. relevance_score d = k) full =
             filter (\<lambda>d. relevance_score d = k) (if kept = [] then [default_result] else kept)) \<and>
        disciplines c = PList (map PResult (take 3 full)) \<and>
        sorted_wrt (\<lambda>a b. relevance_score b \<le> relevance_score a) (take 3 full) \<and>
        length (take 3 full) \<le> 3)"
proof -
  have h: "parse_classification_result (Parsed oracle_sorting_example) =
     Inr \<lparr>disciplines = PList
            [PResult (DisciplineResult (PInt 1) ''Computer Science'' 0.9 (PStr ''b'')),
             PResult (DisciplineResult (PInt 17) ''Mathematics'' 0.6 (PStr ''c'')),
             PResult (DisciplineResult (PInt 3) ''Chemistry'' 0.4 (PStr ''a''))],
          confidence_score = PFloat 0.9, classification_reasoning = PStr ''r'',
          discipline_classification_id = PStr ''''\<rparr>"
    by (simp add: oracle_sorting_example_def parse_eval)
  show ?thesis
    using parse_sorted_desc_top3_stable[OF h] h by simp
qed

section \<open>Clamping of scores and confidence\<close>

text \<open>
  C5. In every parsed classification each relevance score lies in the unit interval and
  is the clamped score of the oracle entry it stems from (1.7 becomes 1.0 and -0.2
  becomes 0.0), and the confidence score is the oracle's confidence clamped to the unit
  interval, 0.7 when the oracle gave none.
\<close>

theorem scores_and_confidence_clamped:
  assumes "parse_classification_result (Parsed data) = Inr c"
  shows "\<exists>items ds kvs r.
     oracle_entries data = Inr items \<and>
     disciplines c = PList (map PResult ds) \<and>
     (\<forall>d\<in>set ds. 0 \<le> relevance_score d \<and> relevance_score d \<le> 1) \<and>
     (\<forall>d\<in>set ds. d = default_result \<or>
          (\<exists>e\<in>set items. \<exists>sc. parse_entry e = Inr (Some d) \<and>
              dict_get e ''score'' (PFloat 0) = Inr sc \<and> clamp01 sc = Inr (relevance_score d))) \<and>
     data = PDict kvs \<and>
     confidence_score c = PFloat r \<and> 0 \<le> r \<and> r \<le> 1 \<and>
     (case map_of kvs ''confidence'' of None \<Rightarrow> r = 0.7 | Some conf \<Rightarrow> clamp01 conf = Inr r) \<and>
     (\<forall>x. clamp01 (PFloat x) = Inr (min 1 (max 0 x))) \<and>
     (\<forall>n. clamp01 (PInt n) = Inr (min 1 (max 0 (real_of_int n))))"
proof -
  from parse_Parsed[OF assms] obtain items parsed conf r where
    items: "oracle_entries data = Inr items" and
    loop: "collect_loop parse_entry items [] = Inr parsed" and
    conf: "dict_get data ''confidence'' (PFloat 0.7) = Inr conf" and
    r: "clamp01 conf = Inr r" and
    c: "disciplines c = PList (map PResult
          (take 3 (sorted_by_relevance_desc (if parsed = [] then [default_result] else parsed))))"
       "confidence_score c = PFloat r"
    by auto
  define ds where "ds = take 3 (sorted_by_relevance_desc (if parsed = [] then [default_result] else parsed))"
  have origin: "d = default_result \<or>
          (\<exists>e\<in>set items. \<exists>sc. parse_entry e = Inr (Some d) \<and>
              dict_get e ''score'' (PFloat 0) = Inr sc \<and> clamp01 sc = Inr (relevance_score d))"
    if d: "d \<in> set ds" for d
    using parsed_entry_origin[OF loop d[unfolded ds_def]]
  proof
    assume "d = default_result \<and> (\<forall>e\<in>set items. parse_entry e = Inr None)"
    then show ?thesis by blast
  next
    assume "\<exists>e\<in>set items. parse_entry e = Inr (Some d)"
    then obtain e where e: "e \<in> set items" "parse_entry e = Inr (Some d)" by blast
    from parse_entry_Some[OF e(2)] e show ?thesis by blast
  qed
  have range: "0 \<le> relevance_score d \<and> relevance_score d \<le> 1" if d: "d \<in> set ds" for d
    using origin[OF d]
  proof
    assume "d = default_result"
    then show ?thesis by (simp add: default_result_def)
  next
    assume "\<exists>e\<in>set items. \<exists>sc. parse_entry e = Inr (Some d) \<and>
              dict_get e ''score'' (PFloat 0) = Inr sc \<and> clamp01 sc = Inr (relevance_score d)"
    then show ?thesis using clamp01_range by blast
  qed
  obtain kvs where kvs: "data = PDict kvs"
    using conf by (cases data) simp_all
  have conf_case: "(case map_of kvs ''confidence'' of None \<Rightarrow> r = 0.7 | Some conf \<Rightarrow> clamp01 conf = Inr r)"
    using conf r unfolding kvs by (cases "map_of kvs ''confidence''") auto
  have fl: "\<forall>x. clamp01 (PFloat x) = Inr (min 1 (max 0 x))"
    by (simp add: min_def max_def)
  have il: "\<forall>n. clamp01 (PInt n) = Inr (min 1 (max 0 (real_of_int n)))"
    by (simp add: min_def max_def)
  show ?thesis
    using items c(2) kvs conf_case clamp01_range[OF r] origin range fl il c(1)[folded ds_def]
    by (intro exI[of _ items] exI[of _ ds] exI[of _ kvs] exI[of _ r]) blast
qed

theorem scores_and_confidence_clamped_witness:
  "\<exists>c. parse_classification_result (Parsed oracle_out_of_range_example) = Inr c \<and>
     disciplines c = PList [PResult (DisciplineResult (PInt 6) ''Physics'' 1 (PStr ''a'')),
                            PResult (DisciplineResult (PInt 4) ''Biology'' 0 (PStr ''b''))] \<and>
     confidence_score c = PFloat 0.7 \<and>
     (\<exists>items ds kvs r.
        oracle_entries oracle_out_of_range_example = Inr items \<and>
        disciplines c = PList (map PResult ds) \<and>
        (\<forall>d\<in>set ds. 0 \<le> relevance_score d \<and> relevance_score d \<le> 1) \<and>
        (\<forall>d\<in>set ds. d = default_result \<or>
             (\<exists>e\<in>set items. \<exists>sc. parse_entry e = Inr (Some d) \<and>
                 dict_get e ''score'' (PFloat 0) = Inr sc \<and> clamp01 sc = Inr (relevance_score d))) \<and>
        oracle_out_of_range_example = PDict kvs \<and>
        confidence_score c = PFloat r \<and> 0 \<le> r \<and> r \<le> 1 \<and>
        (case map_of kvs ''confidence'' of None \<Rightarrow> r = 0.7 | Some conf \<Rightarrow> clamp01 conf = Inr r) \<and>
        (\<forall>x. clamp01 (PFloat x) = Inr (min 1 (max 0 x))) \<and>
        (\<forall>n. clamp01 (PInt n) = Inr (min 1 (max 0 (real_of_int n)))))"
proof -
  have h: "parse_classification_result (Parsed oracle_out_of_range_example) =
     Inr \<lparr>disciplines = PList [PResult (DisciplineResult (PInt 6) ''Physics'' 1 (PStr ''a'')),
                                 PResult (DisciplineResult (PInt 4) ''Biology'' 0 (PStr ''b''))],
          confidence_score = PFloat 0.7, classification_reasoning = PStr ''r'',
          discipline_classification_id = PStr ''''\<rparr>"
    by (simp add: oracle_out_of_range_example_def parse_eval)
  show ?thesis
    using scores_and_confidence_clamped[OF h] h by simp
qed

section \<open>Frame of the validation pass\<close>

text \<open>
  C10. The validation pass changes the disciplines only: the confidence score, the
  reasoning and the classification id of its result are those of its argument, also
  when no entry survives and the fallback entry is substituted.
\<close>

theorem validate_disciplines_frame:
  assumes "validate_disciplines c = Inr c'"
  shows "confidence_score c' = confidence_score c \<and>
         classification_reasoning c' = classification_reasoning c \<and>
         discipline_classification_id c' = discipline_classification_id c"
  using validate_disciplines_Inr[OF assms] by auto

theorem validate_disciplines_frame_witness:
  "\<exists>c'. validate_disciplines
          \<lparr>disciplines = PList [PResult (DisciplineResult (PInt 99) ''Astrology'' 0.8 (PStr ''e''))],
           confidence_score = PFloat 0.9, classification_reasoning = PStr ''r'',
           discipline_classification_id = PStr ''abc''\<rparr> = Inr c' \<and>
        disciplines c' = PList [PResult (DisciplineResult (PInt 1) ''Computer Science'' 0.5
                                          (PStr ''Fallback classification''))] \<and>
        confidence_score c' = PFloat 0.9 \<and>
        classification_reasoning c' = PStr ''r'' \<and>
        discipline_classification_id c' = PStr ''abc''"
proof -
  have h: "validate_disciplines
     \<lparr>disciplines = PList [PResult (DisciplineResult (PInt 99) ''Astrology'' 0.8 (PStr ''e''))],
      confidence_score = PFloat 0.9, classification_reasoning = PStr ''r'',
      discipline_classification_id = PStr ''abc''\<rparr> =
   Inr \<lparr>disciplines = PList [PResult (DisciplineResult (PInt 1) ''Computer Science'' 0.5
                                        (PStr ''Fallback classification''))],
        confidence_score = PFloat 0.9, classification_reasoning = PStr ''r'',
        discipline_classification_id = PStr ''abc''\<rparr>"
    by (simp add: validate_disciplines_def fallback_result_def DISCIPLINES_def)
  show ?thesis
    using validate_disciplines_frame[OF h] h by simp
qed

section \<open>Fallback on oracle failure\<close>

text \<open>
  C4. When the output file is absent, and when its text is not JSON, the parser returns
  the fixed fallback classification: the single entry with id 1, "Computer Science",
  score 0.5 and evidence "Fallback due to classification failure", confidence 0.3 and the
  fixed reasoning string. When the bytes of the file are not UTF-8, which is no valid
  JSON either, the parser returns no classification: \<^verbatim>\<open>read_text\<close> stands inside
  the \<^verbatim>\<open>try\<close> block, but \<^verbatim>\<open>except json.JSONDecodeError\<close> does not catch the
  \<^verbatim>\<open>UnicodeDecodeError\<close> it raises.
\<close>

theorem fallback_not_reached_on_undecodable_file:
  "parse_classification_result Undecodable = Inl UnicodeDecodeError
   \<and> classify_paper Undecodable = Inl UnicodeDecodeError
   \<and> parse_classification_result Absent =
     Inr \<lparr>disciplines = PList [PResult (DisciplineResult (PInt 1) ''Computer Science'' 0.5
            (PStr ''Fallback due to classification failure''))],
          confidence_score = PFloat 0.3,
          classification_reasoning = PStr ''Fallback classification due to processing error'',
          discipline_classification_id = PStr ''''\<rparr>
   \<and> parse_classification_result Malformed = parse_classification_result Absent"
  by (simp add: parse_classification_result_def classify_paper_def fallback_classification_def)

section \<open>Expert roles of a discipline with a full mapping\<close>

text \<open>
  C6. When the primary (first) discipline has five or more mapped role names, the
  derivation with target 5 returns the first five mapped roles in their order, numbered
  from 1, each dynamic, with the recorded focus (or the generated focus naming the role
  and the discipline) and the models sonnet, sonnet, sonnet, haiku, haiku; for any target
  the roles from the sixth on would get haiku. "Computer Science", with its five mapped
  roles, is the discipline of the table that takes this branch.
\<close>

theorem full_replacement_roster:
  assumes "map_of DISCIPLINE_TO_EXPERT_MAPPING primary = Some suggested"
    and "5 \<le> length suggested"
  shows "get_expert_roles_for_disciplines (primary # others) 5 =
           map (\<lambda>i. \<lparr>role_id = int i + 1,
                      role_name = suggested ! i,
                      focus = (case map_of (case map_of DISCIPLINE_EXPERT_FOCUS primary of
                                              Some m \<Rightarrow> m | None \<Rightarrow> []) (suggested ! i) of
                                 Some f \<Rightarrow> f
                               | None \<Rightarrow> ''Expert analysis from '' @ suggested ! i @
                                           '' perspective for '' @ primary),
                      model = [''sonnet'', ''sonnet'', ''sonnet'', ''haiku'', ''haiku''] ! i,
                      is_dynamic = True\<rparr>) [0..<5]
       \<and> (\<forall>n. get_expert_roles_for_disciplines (primary # others) (int n) =
           map (\<lambda>i. \<lparr>role_id = int i + 1,
                      role_name = suggested ! i,
                      focus = (case map_of (case map_of DISCIPLINE_EXPERT_FOCUS primary of
                                              Some m \<Rightarrow> m | None \<Rightarrow> []) (suggested ! i) of
                                 Some f \<Rightarrow> f
                               | None \<Rightarrow> ''Expert analysis from '' @ suggested ! i @
                                           '' perspective for '' @ primary),
                      model = (if i < 5 then [''sonnet'', ''sonnet'', ''sonnet'', ''haiku'', ''haiku''] ! i
                               else ''haiku''),
                      is_dynamic = True\<rparr>) [0..<min n (length suggested)])"
proof -
  have gen: "get_expert_roles_for_disciplines (primary # others) (int n) =
           map (\<lambda>i. \<lparr>role_id = int i + 1,
                      role_name = suggested ! i,
                      focus = (case map_of (case map_of DISCIPLINE_EXPERT_FOCUS primary of
                                              Some m \<Rightarrow> m | None \<Rightarrow> []) (suggested ! i) of
                                 Some f \<Rightarrow> f
                               | None \<Rightarrow> ''Expert analysis from '' @ suggested ! i @
                                           '' perspective for '' @ primary),
                      model = (if i < 5 then [''sonnet'', ''sonnet'', ''sonnet'', ''haiku'', ''haiku''] ! i
                               else ''haiku''),
                      is_dynamic = True\<rparr>) [0..<min n (length suggested)]" for n
    using assms
    by (simp add: get_expert_roles_for_disciplines_def slice_to_nat map_enumerate_nth
        mapped_focus_def tier_models_def min.commute split: option.split)
  have "get_expert_roles_for_disciplines (primary # others) 5 =
      get_expert_roles_for_disciplines (primary # others) (int 5)"
    by simp
  also note gen[of 5]
  finally show ?thesis
    using assms(2) gen by (simp add: min_def)
qed

theorem full_replacement_roster_witness:
  "map_of DISCIPLINE_TO_EXPERT_MAPPING ''Computer Science'' =
     Some [''Algorithm & Complexity Expert'', ''Experimental Design Expert'',
           ''Systems & Implementation Expert'', ''Related Work & Novelty Expert'',
           ''Clarity & Presentation Expert'']
   \<and> get_expert_roles_for_disciplines [''Computer Science'', ''Mathematics''] 5 =
     [\<lparr>role_id = 1, role_name = ''Algorithm & Complexity Expert'',
       focus = ''Algorithm correctness, computational complexity, theoretical analysis, proof validity'',
       model = ''sonnet'', is_dynamic = True\<rparr>,
      \<lparr>role_id = 2, role_name = ''Experimental Design Expert'',
       focus = ''Benchmark selection, baseline fairness, ablation studies, hyperparameter sensitivity, statistical significance'',
       model = ''sonnet'', is_dynamic = True\<rparr>,
      \<lparr>role_id = 3, role_name = ''Systems & Implementation Expert'',
       focus = ''Code quality, reproducibility, scalability, engineering practices, open-source availability'',
       model = ''sonnet'', is_dynamic = True\<rparr>,
      \<lparr>role_id = 4, role_name = ''Related Work & Novelty Expert'',
       focus = ''Literature coverage, novelty claims, fair comparison with prior work, contribution clarity'',
       model = ''haiku'', is_dynamic = True\<rparr>,
      \<lparr>role_id = 5, role_name = ''Clarity & Presentation Expert'',
       focus = ''Writing quality, figure clarity, notation consistency, logical flow'',
       model = ''haiku'', is_dynamic = True\<rparr>]"
proof -
  have m: "map_of DISCIPLINE_TO_EXPERT_MAPPING ''Computer Science'' =
     Some [''Algorithm & Complexity Expert'', ''Experimental Design Expert'',
           ''Systems & Implementation Expert'', ''Related Work & Novelty Expert'',
           ''Clarity & Presentation Expert'']"
    by (simp add: DISCIPLINE_TO_EXPERT_MAPPING_def)
  show ?thesis
    using full_replacement_roster[OF m, of "[''Mathematics'']"] m
    by (simp add: DISCIPLINE_EXPERT_FOCUS_def upt_rec)
qed

section \<open>Expert roles of a discipline with a short mapping\<close>

text \<open>
  C7. When the primary discipline has fewer than five mapped role names (none included),
  the derivation with target 5 returns the default roster with position 3 replaced by
  the first mapped role when there is one and position 4 by the second when there is
  one; a replaced entry is dynamic and its focus names the primary discipline; positions
  1, 2 and 5 are the defaults; a smaller target truncates this list. "Mathematics" yields
  "Statistical Methodologist" and "Formal Methods Expert" at positions 3 and 4.
\<close>

theorem partial_patch_roster:
  assumes "suggested = (case map_of DISCIPLINE_TO_EXPERT_MAPPING primary of
                          Some roles \<Rightarrow> roles | None \<Rightarrow> [])"
    and "length suggested < 5"
  shows "get_expert_roles_for_disciplines (primary # others) 5 =
     [\<lparr>role_id = 1, role_name = ''Methodology Expert'',
       focus = ''Research methodology, experimental design, validity of approach'',
       model = ''sonnet'', is_dynamic = True\<rparr>,
      \<lparr>role_id = 2, role_name = ''Technical Expert'',
       focus = ''Technical soundness, implementation details, reproducibility'',
       model = ''sonnet'', is_dynamic = True\<rparr>,
      (if 1 \<le> length suggested
       then \<lparr>role_id = 3, role_name = suggested ! 0,
             focus = ''Domain expertise in '' @ primary,
             model = ''sonnet'', is_dynamic = True\<rparr>
       else \<lparr>role_id = 3, role_name = ''Domain Expert'',
             focus = ''Domain knowledge, literature integration, theoretical foundation'',
             model = ''sonnet'', is_dynamic = True\<rparr>),
      (if 2 \<le> length suggested
       then \<lparr>role_id = 4, role_name = suggested ! 1,
             focus = ''Technical expertise related to '' @ primary,
             model = ''haiku'', is_dynamic = True\<rparr>
       else \<lparr>role_id = 4, role_name = ''Related Work Expert'',
             focus = ''Literature coverage, novelty assessment, positioning'',
             model = ''haiku'', is_dynamic = True\<rparr>),
      \<lparr>role_id = 5, role_name = ''Presentation Expert'',
       focus = ''Clarity, logical coherence, writing quality'',
       model = ''haiku'', is_dynamic = True\<rparr>]
   \<and> (\<forall>n. get_expert_roles_for_disciplines (primary # others) (int n) =
          take n (get_expert_roles_for_disciplines (primary # others) 5))"
proof -
  have s: "(case map_of DISCIPLINE_TO_EXPERT_MAPPING primary of Some roles \<Rightarrow> roles | None \<Rightarrow> []) = suggested"
    using assms(1) by simp
  have five: "slice_to 5 xs = take 5 xs" for xs :: "ExpertRole list"
    by (simp add: slice_to_def)
  have 1: "get_expert_roles_for_disciplines (primary # others) 5 =
     [\<lparr>role_id = 1, role_name = ''Methodology Expert'',
       focus = ''Research methodology, experimental design, validity of approach'',
       model = ''sonnet'', is_dynamic = True\<rparr>,
      \<lparr>role_id = 2, role_name = ''Technical Expert'',
       focus = ''Technical soundness, implementation details, reproducibility'',
       model = ''sonnet'', is_dynamic = True\<rparr>,
      (if 1 \<le> length suggested
       then \<lparr>role_id = 3, role_name = suggested ! 0,
             focus = ''Domain expertise in '' @ primary,
             model = ''sonnet'', is_dynamic = True\<rparr>
       else \<lparr>role_id = 3, role_name = ''Domain Expert'',
             focus = ''Domain knowledge, literature integration, theoretical foundation'',
             model = ''sonnet'', is_dynamic = True\<rparr>),
      (if 2 \<le> length suggested
       then \<lparr>role_id = 4, role_name = suggested ! 1,
             focus = ''Technical expertise related to '' @ primary,
             model = ''haiku'', is_dynamic = True\<rparr>
       else \<lparr>role_id = 4, role_name = ''Related Work Expert'',
             focus = ''Literature coverage, novelty assessment, positioning'',
             model = ''haiku'', is_dynamic = True\<rparr>),
      \<lparr>role_id = 5, role_name = ''Presentation Expert'',
       focus = ''Clarity, logical coherence, writing quality'',
       model = ''haiku'', is_dynamic = True\<rparr>]"
    using assms(2)
    by (simp add: get_expert_roles_for_disciplines_def s five DEFAULT_EXPERT_CONFIGS_def Let_def)
  have 2: "get_expert_roles_for_disciplines (primary # others) (int n) =
          take n (get_expert_roles_for_disciplines (primary # others) 5)" for n
    using assms(2)
    by (simp add: get_expert_roles_for_disciplines_def s five slice_to_nat DEFAULT_EXPERT_CONFIGS_def Let_def)
  show ?thesis
    using 1 2 by blast
qed

theorem partial_patch_roster_witness:
  "[''Statistical Methodologist'', ''Formal Methods Expert''] =
     (case map_of DISCIPLINE_TO_EXPERT_MAPPING ''Mathematics'' of Some roles \<Rightarrow> roles | None \<Rightarrow> [])
   \<and> get_expert_roles_for_disciplines [''Mathematics'', ''Physics''] 5 =
     [\<lparr>role_id = 1, role_name = ''Methodology Expert'',
       focus = ''Research methodology, experimental design, validity of approach'',
       model = ''sonnet'', is_dynamic = True\<rparr>,
      \<lparr>role_id = 2, role_name = ''Technical Expert'',
       focus = ''Technical soundness, implementation details, reproducibility'',
       model = ''sonnet'', is_dynamic = True\<rparr>,
      \<lparr>role_id = 3, role_name = ''Statistical Methodologist'',
       focus = ''Domain expertise in Mathematics'',
       model = ''sonnet'', is_dynamic = True\<rparr>,
      \<lparr>role_id = 4, role_name = ''Formal Methods Expert'',
       focus = ''Technical expertise related to Mathematics'',
       model = ''haiku'', is_dynamic = True\<rparr>,
      \<lparr>role_id = 5, role_name = ''Presentation Expert'',
       focus = ''Clarity, logical coherence, writing quality'',
       model = ''haiku'', is_dynamic = True\<rparr>]"
proof -
  have m: "[''Statistical Methodologist'', ''Formal Methods Expert''] =
     (case map_of DISCIPLINE_TO_EXPERT_MAPPING ''Mathematics'' of Some roles \<Rightarrow> roles | None \<Rightarrow> [])"
    by (simp add: DISCIPLINE_TO_EXPERT_MAPPING_def)
  have l: "length [''Statistical Methodologist'', ''Formal Methods Expert''] < 5"
    by simp
  from partial_patch_roster[OF m l, of "[''Physics'']"]
  have r: "get_expert_roles_for_disciplines [''Mathematics'', ''Physics''] 5 =
     [\<lparr>role_id = 1, role_name = ''Methodology Expert'',
       focus = ''Research methodology, experimental design, validity of approach'',
       model = ''sonnet'', is_dynamic = True\<rparr>,
      \<lparr>role_id = 2, role_name = ''Technical Expert'',
       focus = ''Technical soundness, implementation details, reproducibility'',
       model = ''sonnet'', is_dynamic = True\<rparr>,
      \<lparr>role_id = 3, role_name = ''Statistical Methodologist'',
       focus = ''Domain expertise in Mathematics'',
       model = ''sonnet'', is_dynamic = True\<rparr>,
      \<lparr>role_id = 4, role_name = ''Formal Methods Expert'',
       focus = ''Technical expertise related to Mathematics'',
       model = ''haiku'', is_dynamic = True\<rparr>,
      \<lparr>role_id = 5, role_name = ''Presentation Expert'',
       focus = ''Clarity, logical coherence, writing quality'',
       model = ''haiku'', is_dynamic = True\<rparr>]"
    by simp
  show ?thesis
    by (rule conjI[OF m r])
qed

section \<open>Section type inference by keyword\<close>

text \<open>
  C8, as stated: when no keyword occurs in the section name, the inferred type is
  "content". The section name "Figures", lower-cased "figures", contains no keyword, and
  with the default type "figure" the inferred type is "figure".
\<close>

theorem infer_section_type_default_counterexample:
  "ascii_lower ''Figures'' = ''figures'' \<and>
   scan_types type_mappings ''figures'' = None \<and>
   infer_section_type ascii_lower ''Figures'' ''figure'' = ''figure'' \<and>
   infer_section_type ascii_lower ''Figures'' ''figure'' \<noteq> ''content''"
  by code_simp

text \<open>
  C8, amended. Whatever \<^verbatim>\<open>str.lower\<close> computes, the inferred type is the first section
  type of the ordered table one of whose keywords is a substring of the lower-cased
  section name; when there is none it is the default type passed by the caller, and
  "content" when that is empty. The matching is case-insensitive: two section names with
  the same lower-cased form get the same type.
\<close>

theorem infer_section_type_first_match:
  "infer_section_type str_lower section_name default_type =
     (case find (\<lambda>(t, kws). \<exists>kw\<in>set kws. sublist kw (str_lower section_name)) type_mappings of
        Some (t, kws) \<Rightarrow> t
      | None \<Rightarrow> (if default_type = [] then ''content'' else default_type))
   \<and> (str_lower other_name = str_lower section_name \<longrightarrow>
        infer_section_type str_lower other_name default_type =
        infer_section_type str_lower section_name default_type)"
proof -
  have "infer_section_type str_lower section_name default_type =
     (case find (\<lambda>(t, kws). \<exists>kw\<in>set kws. sublist kw (str_lower section_name)) type_mappings of
        Some (t, kws) \<Rightarrow> t
      | None \<Rightarrow> (if default_type = [] then ''content'' else default_type))"
    unfolding infer_section_type_def scan_types_find
    by (cases "find (\<lambda>(t, kws). \<exists>kw\<in>set kws. sublist kw (str_lower section_name)) type_mappings")
      auto
  moreover have "infer_section_type str_lower other_name default_type =
        infer_section_type str_lower section_name default_type"
    if "str_lower other_name = str_lower section_name"
    using that by (simp add: infer_section_type_def)
  ultimately show ?thesis by blast
qed

theorem infer_section_type_first_match_witness:
  "ascii_lower ''experimental methods'' = ascii_lower ''Experimental METHODS'' \<and>
   infer_section_type ascii_lower ''Experimental METHODS'' ''misc'' = ''methods'' \<and>
   infer_section_type ascii_lower ''experimental methods'' ''misc'' = ''methods'' \<and>
   infer_section_type ascii_lower ''Figures'' ''figure'' = ''figure'' \<and>
   infer_section_type ascii_lower ''Figures'' [] = ''content''"
proof -
  have l1: "ascii_lower ''Experimental METHODS'' = ''experimental methods''"
    and l1': "ascii_lower ''experimental methods'' = ''experimental methods''"
    and l2: "ascii_lower ''Figures'' = ''figures''"
    by code_simp+
  have f1: "find (\<lambda>(t, kws). \<exists>kw\<in>set kws. sublist kw ''experimental methods'') type_mappings =
      Some (''methods'', [''method'', ''methodology'', ''approach'', ''materials and methods''])"
    by (simp add: type_mappings_def sublist_code prefix_code)
  have f2: "find (\<lambda>(t, kws). \<exists>kw\<in>set kws. sublist kw ''figures'') type_mappings = None"
    by (simp add: type_mappings_def sublist_code prefix_code)
  show ?thesis
    using infer_section_type_first_match
        [of ascii_lower "''Experimental METHODS''" "''misc''" "''experimental methods''"]
      infer_section_type_first_match[of ascii_lower "''Figures''" "''figure''" "''Figures''"]
      infer_section_type_first_match[of ascii_lower "''Figures''" "[]" "''Figures''"]
    unfolding l1 l1' l2 f1 f2
    by simp
qed

section \<open>Round trip through the storage payload\<close>

text \<open>
  C9. Serialising the fallback classification to its payload and constructing a
  \<^verbatim>\<open>DisciplineClassification\<close> from the payload does not give the fallback
  classification back: the three scalar fields are equal, but the disciplines are the
  payload's dictionaries, not \<^verbatim>\<open>DisciplineResult\<close> values.
\<close>

theorem roundtrip_fallback_classification:
  "classification_to_dict fallback_classification =
     Inr (PDict
       [(''disciplines'', PList [PDict [(''discipline_id'', PInt 1),
                            (''name'', PStr ''Computer Science''),
                            (''relevance_score'', PFloat 0.5),
                            (''evidence'', PStr ''Fallback due to classification failure'')]]),
        (''confidence_score'', PFloat 0.3),
        (''classification_reasoning'', PStr ''Fallback classification due to processing error''),
        (''discipline_classification_id'', PStr '''')])
   \<and> load_classifier_output (Parsed (PDict
       [(''disciplines'', PList [PDict [(''discipline_id'', PInt 1),
                            (''name'', PStr ''Computer Science''),
                            (''relevance_score'', PFloat 0.5),
                            (''evidence'', PStr ''Fallback due to classification failure'')]]),
        (''confidence_score'', PFloat 0.3),
        (''classification_reasoning'', PStr ''Fallback classification due to processing error''),
        (''discipline_classification_id'', PStr '''')])) =
     Inr \<lparr>disciplines = PList [PDict [(''discipline_id'', PInt 1),
                            (''name'', PStr ''Computer Science''),
                            (''relevance_score'', PFloat 0.5),
                            (''evidence'', PStr ''Fallback due to classification failure'')]],
          confidence_score = PFloat 0.3,
          classification_reasoning = PStr ''Fallback classification due to processing error'',
          discipline_classification_id = PStr ''''\<rparr>
   \<and> load_classifier_output (Parsed (PDict
       [(''disciplines'', PList [PDict [(''discipline_id'', PInt 1),
                            (''name'', PStr ''Computer Science''),
                            (''relevance_score'', PFloat 0.5),
                            (''evidence'', PStr ''Fallback due to classification failure'')]]),
        (''confidence_score'', PFloat 0.3),
        (''classification_reasoning'', PStr ''Fallback classification due to processing error''),
        (''discipline_classification_id'', PStr '''')])) \<noteq> Inr fallback_classification"
  by (simp add: classification_to_dict_def fallback_classification_def load_classifier_output_def
      classification_fields_def)

end
